theory Spec2Isabelle
  imports Complex_Main "HOL-Library.Word"
begin

section \<open>Floating-point values\<close>

text \<open>
  The node computes with IEEE doubles and tests them with \<open>np.isnan\<close>, \<open>np.isinf\<close> and
  \<open>np.isfinite\<close>. A float is modelled as a real number or one of the three special values.
  Rounding, overflow to infinity and the sign of zero are not modelled: finite arithmetic is
  exact real arithmetic, and a zero divisor counts as \<open>+0\<close>. The one overflow on which an
  exception depends, in the sum of two keypoint coordinates, is \<open>fadd64\<close> below.
\<close>

datatype fl = Fin real | PInf | NInf | NaN

fun isnan :: "fl \<Rightarrow> bool" where
  "isnan NaN = True"
| "isnan _ = False"

fun isinf :: "fl \<Rightarrow> bool" where
  "isinf PInf = True"
| "isinf NInf = True"
| "isinf _ = False"

fun isfinite :: "fl \<Rightarrow> bool" where
  "isfinite (Fin _) = True"
| "isfinite _ = False"

fun fsgn :: "fl \<Rightarrow> real" where
  "fsgn (Fin a) = sgn a"
| "fsgn PInf = 1"
| "fsgn NInf = - 1"
| "fsgn NaN = 0"

fun fneg :: "fl \<Rightarrow> fl" where
  "fneg (Fin a) = Fin (- a)"
| "fneg PInf = NInf"
| "fneg NInf = PInf"
| "fneg NaN = NaN"

fun fadd :: "fl \<Rightarrow> fl \<Rightarrow> fl" where
  "fadd (Fin a) (Fin b) = Fin (a + b)"
| "fadd NaN _ = NaN"
| "fadd _ NaN = NaN"
| "fadd PInf NInf = NaN"
| "fadd NInf PInf = NaN"
| "fadd PInf _ = PInf"
| "fadd _ PInf = PInf"
| "fadd NInf _ = NInf"
| "fadd _ NInf = NInf"

definition fsub :: "fl \<Rightarrow> fl \<Rightarrow> fl" where
  "fsub a b = fadd a (fneg b)"

fun fmul :: "fl \<Rightarrow> fl \<Rightarrow> fl" where
  "fmul (Fin a) (Fin b) = Fin (a * b)"
| "fmul NaN _ = NaN"
| "fmul _ NaN = NaN"
| "fmul a b = (if fsgn a = 0 \<or> fsgn b = 0 then NaN
               else if fsgn a = fsgn b then PInf else NInf)"

fun fdiv :: "fl \<Rightarrow> fl \<Rightarrow> fl" where
  "fdiv (Fin a) (Fin b) =
     (if b = 0 then (if a = 0 then NaN else if 0 < a then PInf else NInf) else Fin (a / b))"
| "fdiv NaN _ = NaN"
| "fdiv _ NaN = NaN"
| "fdiv (Fin a) _ = Fin 0"
| "fdiv PInf (Fin b) = (if 0 \<le> b then PInf else NInf)"
| "fdiv NInf (Fin b) = (if 0 \<le> b then NInf else PInf)"
| "fdiv _ _ = NaN"

fun fabs :: "fl \<Rightarrow> fl" where
  "fabs (Fin a) = Fin \<bar>a\<bar>"
| "fabs PInf = PInf"
| "fabs NInf = PInf"
| "fabs NaN = NaN"

text \<open>Comparison \<open>a <= b\<close>: false as soon as one side is NaN.\<close>

fun fle :: "fl \<Rightarrow> fl \<Rightarrow> bool" where
  "fle (Fin a) (Fin b) = (a \<le> b)"
| "fle NaN _ = False"
| "fle _ NaN = False"
| "fle NInf _ = True"
| "fle _ PInf = True"
| "fle _ _ = False"

text \<open>Python's \<open>int(x)\<close> on a float: truncation towards zero.\<close>

definition py_int :: "real \<Rightarrow> int" where
  "py_int r = (if 0 \<le> r then \<lfloor>r\<rfloor> else \<lceil>r\<rceil>)"

section \<open>Messages and configuration\<close>

type_synonym vec3 = "fl \<times> fl \<times> fl"

text \<open>A quaternion is the array \<open>[w, x, y, z]\<close> that \<open>get_transform\<close> builds.\<close>

type_synonym quat = "fl \<times> fl \<times> fl \<times> fl"

record Point2D =
  p_x :: real
  p_y :: real

record KeyPoint2D =
  kp_id :: int
  kp_point :: Point2D
  kp_score :: real

record BoundingBox2D =
  center2 :: Point2D
  size2 :: Point2D

record BoundingBox3D =
  center :: vec3
  size3 :: vec3
  frame_id :: string

record KeyPoint3D =
  kp3_point :: vec3
  kp3_id :: int
  kp3_score :: real

record KeyPoint3DArray =
  kp3_data :: "KeyPoint3D list"
  kp3_frame_id :: string

record Detection =
  bbox :: BoundingBox2D
  keypoints :: "KeyPoint2D list"
  bbox3d :: BoundingBox3D
  keypoints3d :: KeyPoint3DArray

text \<open>
  \<open>CameraInfo\<close>: \<open>k\<close> is the fixed-size array of the nine entries of the intrinsic matrix,
  read at the indices 0, 2, 4 and 5 only.
\<close>

record CameraInfo =
  info_frame_id :: string
  height :: nat
  width :: nat
  k :: "nat \<Rightarrow> real"

text \<open>
  A decoded depth image: a two-dimensional array with its shape. \<open>pixel img r c\<close> is the raw
  sample of row \<open>r\<close> and column \<open>c\<close>; only indices inside the shape are ever read.
\<close>

record image =
  rows :: nat
  cols :: nat
  pixel :: "nat \<Rightarrow> nat \<Rightarrow> fl"

text \<open>The parameters read by \<open>on_configure\<close>.\<close>

record node =
  target_frame :: string
  maximum_detection_threshold :: real
  depth_image_units_divisor :: int

text \<open>The default-constructed messages \<open>Point2D()\<close> and \<open>KeyPoint2D()\<close>.\<close>

definition Point2D_default :: Point2D where
  "Point2D_default = \<lparr>p_x = 0, p_y = 0\<rparr>"

definition KeyPoint2D_default :: KeyPoint2D where
  "KeyPoint2D_default = \<lparr>kp_id = 0, kp_point = Point2D_default, kp_score = 0\<rparr>"

section \<open>The depth region of a box\<close>

text \<open>
  A bound of a Python slice over an axis of length \<open>n\<close>: a negative bound counts from the
  end, and the result is clipped to \<open>0 .. n\<close>.
\<close>

definition slice_bound :: "nat \<Rightarrow> int \<Rightarrow> nat" where
  "slice_bound n i = (if i < 0 then nat (max (i + int n) 0) else nat (min i (int n)))"

text \<open>\<open>depth_image[v0:v1, u0:u1]\<close>, as the list of its rows.\<close>

definition np_slice2 :: "image \<Rightarrow> int \<Rightarrow> int \<Rightarrow> int \<Rightarrow> int \<Rightarrow> fl list list" where
  "np_slice2 img v0 v1 u0 u1 =
     map (\<lambda>r. map (\<lambda>c. pixel img r c)
                 [slice_bound (cols img) u0 ..< slice_bound (cols img) u1])
         [slice_bound (rows img) v0 ..< slice_bound (rows img) v1]"

text \<open>The clipping bounds and the crop at the head of \<open>convert_bb_to_3d\<close>.\<close>

definition u_min :: "int \<Rightarrow> int \<Rightarrow> int" where
  "u_min center_x size_x = max (center_x - size_x div 2) 0"

definition u_max :: "image \<Rightarrow> int \<Rightarrow> int \<Rightarrow> int" where
  "u_max img center_x size_x = min (center_x + size_x div 2) (int (cols img) - 1)"

definition v_min :: "int \<Rightarrow> int \<Rightarrow> int" where
  "v_min center_y size_y = max (center_y - size_y div 2) 0"

definition v_max :: "image \<Rightarrow> int \<Rightarrow> int \<Rightarrow> int" where
  "v_max img center_y size_y = min (center_y + size_y div 2) (int (rows img) - 1)"

definition crop_roi :: "node \<Rightarrow> image \<Rightarrow> int \<Rightarrow> int \<Rightarrow> int \<Rightarrow> int \<Rightarrow> fl list list" where
  "crop_roi self img center_x center_y size_x size_y =
     map (map (\<lambda>s. fdiv s (Fin (real_of_int (depth_image_units_divisor self)))))
       (np_slice2 img (v_min center_y size_y) (v_max img center_y size_y)
                      (u_min center_x size_x) (u_max img center_x size_x))"

section \<open>The pixel anchor\<close>

text \<open>
  The four candidate keypoints start as default messages and are overwritten by the loop over
  \<open>detection.keypoints.data\<close>; a later keypoint with the same id replaces an earlier one.
\<close>

record kp_state =
  kp5 :: KeyPoint2D
  kp6 :: KeyPoint2D
  kp11 :: KeyPoint2D
  kp12 :: KeyPoint2D
  up_detected :: bool
  down_detected :: bool

definition kp_init :: kp_state where
  "kp_init = \<lparr>kp5 = KeyPoint2D_default, kp6 = KeyPoint2D_default,
              kp11 = KeyPoint2D_default, kp12 = KeyPoint2D_default,
              up_detected = False, down_detected = False\<rparr>"

definition kp_step :: "kp_state \<Rightarrow> KeyPoint2D \<Rightarrow> kp_state" where
  "kp_step s kp =
     (if kp_id kp = 5 then s\<lparr>kp5 := kp, up_detected := True\<rparr>
      else if kp_id kp = 6 then s\<lparr>kp6 := kp, up_detected := True\<rparr>
      else if kp_id kp = 11 then s\<lparr>kp11 := kp, down_detected := True\<rparr>
      else if kp_id kp = 12 then s\<lparr>kp12 := kp, down_detected := True\<rparr>
      else s)"

definition get_keypoints :: "KeyPoint2D list \<Rightarrow> kp_state" where
  "get_keypoints kps = foldl kp_step kp_init kps"

text \<open>\<open>a if a.score > b.score else b\<close>\<close>

definition better :: "KeyPoint2D \<Rightarrow> KeyPoint2D \<Rightarrow> KeyPoint2D" where
  "better a b = (if kp_score b < kp_score a then a else b)"

definition midpoint2 :: "KeyPoint2D \<Rightarrow> KeyPoint2D \<Rightarrow> real \<times> real" where
  "midpoint2 up down =
     ((p_x (kp_point up) + p_x (kp_point down)) / 2,
      (p_y (kp_point up) + p_y (kp_point down)) / 2)"

text \<open>
  The four blocks of \<open>convert_bb_to_3d\<close> that overwrite \<open>center_x\<close> and \<open>center_y\<close>, in the
  source's order, followed by the two \<open>int(...)\<close> conversions. The first argument is the
  truncated centre of the 2D box.
\<close>

definition resolve_anchor :: "int \<times> int \<Rightarrow> KeyPoint2D list \<Rightarrow> int \<times> int" where
  "resolve_anchor c kps =
     (let s = get_keypoints kps;
          c0 = (real_of_int (fst c), real_of_int (snd c));
          c1 = (if up_detected s \<and> down_detected s
                then midpoint2 (better (kp5 s) (kp6 s)) (better (kp11 s) (kp12 s)) else c0);
          c2 = (if up_detected s \<and> \<not> down_detected s
                then (p_x (kp_point (better (kp5 s) (kp6 s))),
                      p_y (kp_point (better (kp5 s) (kp6 s)))) else c1);
          c3 = (if down_detected s \<and> \<not> up_detected s
                then (p_x (kp_point (better (kp11 s) (kp12 s))),
                      p_y (kp_point (better (kp11 s) (kp12 s)))) else c2);
          c4 = (if up_detected s \<and> down_detected s
                then midpoint2 (better (kp5 s) (kp6 s)) (better (kp11 s) (kp12 s)) else c3)
      in (py_int (fst c4), py_int (snd c4)))"

section \<open>The 3D box of a detection\<close>

text \<open>\<open>np.any(roi)\<close>: some sample is not zero (NaN and the infinities count as not zero).\<close>

definition np_any :: "fl list list \<Rightarrow> bool" where
  "np_any roi = list_ex (\<lambda>s. s \<noteq> Fin 0) (concat roi)"

text \<open>
  After \<open>np.ma.masked_invalid\<close> the NaN and infinite samples are masked, and every later
  reduction (\<open>any\<close>, \<open>mean\<close>, \<open>min\<close>, \<open>max\<close>) skips them. \<open>fin_vals\<close> is the unmasked data.
\<close>

fun fin_vals :: "fl list \<Rightarrow> real list" where
  "fin_vals [] = []"
| "fin_vals (Fin a # xs) = a # fin_vals xs"
| "fin_vals (_ # xs) = fin_vals xs"

definition ma_any_isfinite :: "fl list list \<Rightarrow> bool" where
  "ma_any_isfinite roi = (fin_vals (concat roi) \<noteq> [])"

definition ma_any_nonzero :: "fl list list \<Rightarrow> bool" where
  "ma_any_nonzero roi = list_ex (\<lambda>a. a \<noteq> 0) (fin_vals (concat roi))"

text \<open>\<open>np.mean\<close> of the unmasked data; of no data at all it is not a number.\<close>

definition np_mean :: "real list \<Rightarrow> fl" where
  "np_mean xs = (if xs = [] then NaN else Fin (sum_list xs / real (length xs)))"

text \<open>\<open>np.mean(roi[roi > 0])\<close>\<close>

definition average_z :: "fl list list \<Rightarrow> fl" where
  "average_z roi = np_mean (filter (\<lambda>a. 0 < a) (fin_vals (concat roi)))"

text \<open>\<open>roi[np.abs(roi - average_z_coord) <= maximum_detection_threshold]\<close>, unmasked data.\<close>

definition roi_threshold :: "node \<Rightarrow> fl list list \<Rightarrow> fl \<Rightarrow> real list" where
  "roi_threshold self roi avg =
     fin_vals (filter (\<lambda>s. fle (fabs (fsub s avg)) (Fin (maximum_detection_threshold self)))
                (concat roi))"

definition convert_bb_to_3d ::
  "node \<Rightarrow> image \<Rightarrow> CameraInfo \<Rightarrow> ('a Detection_scheme) \<Rightarrow> BoundingBox3D option" where
  "convert_bb_to_3d self depth_image depth_info detection =
     (let center_x = py_int (p_x (center2 (bbox detection)));
          center_y = py_int (p_y (center2 (bbox detection)));
          size_x = py_int (p_x (size2 (bbox detection)));
          size_y = py_int (p_y (size2 (bbox detection)));
          roi = crop_roi self depth_image center_x center_y size_x size_y
      in if \<not> np_any roi then None
         else
           let (cx, cy) = resolve_anchor (center_x, center_y) (keypoints detection)
           in if cx < 0 \<or> int (cols depth_image) \<le> cx \<or> cy < 0 \<or> int (rows depth_image) \<le> cy
              then None
              else
                let bb_center_z_coord =
                      fdiv (pixel depth_image (nat cy) (nat cx))
                           (Fin (real_of_int (depth_image_units_divisor self)))
                in if isnan bb_center_z_coord \<or> bb_center_z_coord = Fin 0
                        \<or> isinf bb_center_z_coord
                   then None
                   else if \<not> (ma_any_isfinite roi \<and> ma_any_nonzero roi) then None
                   else
                     let average_z_coord = average_z roi;
                         thr = roi_threshold self roi average_z_coord
                     in if thr = [] then None
                        else
                          let z_min = Min (set thr);
                              z_max = Max (set thr);
                              px = k depth_info 2; py = k depth_info 5;
                              fx = k depth_info 0; fy = k depth_info 4;
                              x = fdiv (fmul average_z_coord (Fin (real_of_int cx - px))) (Fin fx);
                              y = fdiv (fmul average_z_coord (Fin (real_of_int cy - py))) (Fin fy);
                              w = fmul average_z_coord (fdiv (Fin (real_of_int size_x)) (Fin fx));
                              h = fmul average_z_coord (fdiv (Fin (real_of_int size_y)) (Fin fy))
                          in Some \<lparr>center = (x, y, average_z_coord),
                                   size3 = (w, h, Fin (z_max - z_min)),
                                   frame_id = []\<rparr>)"

section \<open>Keypoints in 3D\<close>

datatype py_error = IndexError | ValueError | OverflowError

text \<open>
  \<open>np.array(..., dtype=np.int16)\<close> on float coordinates: the fraction is dropped and the
  integer is kept in 16 bits, two's complement.
\<close>

definition np_int16 :: "real \<Rightarrow> int" where
  "np_int16 r = sint (word_of_int (py_int r) :: 16 word)"

text \<open>\<open>a.clip(lo, hi)\<close> is \<open>minimum(maximum(a, lo), hi)\<close>.\<close>

definition np_clip :: "int \<Rightarrow> int \<Rightarrow> int \<Rightarrow> int" where
  "np_clip a lo hi = min (max a lo) hi"

text \<open>An index into an axis of length \<open>n\<close>: negative indices count from the end.\<close>

definition np_index :: "nat \<Rightarrow> int \<Rightarrow> py_error + nat" where
  "np_index n i =
     (if 0 \<le> i \<and> i < int n then Inr (nat i)
      else if - int n \<le> i \<and> i < 0 then Inr (nat (i + int n))
      else Inl IndexError)"

text \<open>\<open>depth_image[u, v]\<close> with two index arrays.\<close>

fun np_take2 :: "image \<Rightarrow> int list \<Rightarrow> int list \<Rightarrow> py_error + fl list" where
  "np_take2 img (u # us) (v # vs) =
     (case np_index (rows img) u of
        Inl e \<Rightarrow> Inl e
      | Inr r \<Rightarrow>
          (case np_index (cols img) v of
             Inl e \<Rightarrow> Inl e
           | Inr c \<Rightarrow>
               (case np_take2 img us vs of
                  Inl e \<Rightarrow> Inl e
                | Inr zs \<Rightarrow> Inr (pixel img r c # zs))))"
| "np_take2 img _ _ = Inr []"

definition has_nan :: "vec3 \<Rightarrow> bool" where
  "has_nan p = (case p of (a, b, c) \<Rightarrow> isnan a \<or> isnan b \<or> isnan c)"

text \<open>The loop that appends one message for every point without a NaN.\<close>

fun generate_message :: "KeyPoint3D list \<Rightarrow> (vec3 \<times> KeyPoint2D) list \<Rightarrow> KeyPoint3D list" where
  "generate_message acc [] = acc"
| "generate_message acc ((p, d) # rest) =
     generate_message
       (if \<not> has_nan p
        then acc @ [\<lparr>kp3_point = p, kp3_id = kp_id d, kp3_score = kp_score d\<rparr>]
        else acc) rest"

definition convert_keypoints_to_3d ::
  "node \<Rightarrow> image \<Rightarrow> CameraInfo \<Rightarrow> ('a Detection_scheme) \<Rightarrow> py_error + KeyPoint3DArray" where
  "convert_keypoints_to_3d self depth_image depth_info detection =
     (if keypoints detection = [] then Inl IndexError
      else
        let keypoints_2d = map (\<lambda>p. (np_int16 (p_x (kp_point p)), np_int16 (p_y (kp_point p))))
                             (keypoints detection);
            u = map (\<lambda>q. np_clip (snd q) 0 (int (height depth_info) - 1)) keypoints_2d;
            v = map (\<lambda>q. np_clip (fst q) 0 (int (width depth_info) - 1)) keypoints_2d
        in case np_take2 depth_image u v of
             Inl e \<Rightarrow> Inl e
           | Inr z \<Rightarrow>
               let px = k depth_info 2; py = k depth_info 5;
                   fx = k depth_info 0; fy = k depth_info 4;
                   x = map2 (\<lambda>zi vi. fdiv (fmul zi (Fin (real_of_int vi - px))) (Fin fx)) z v;
                   y = map2 (\<lambda>zi ui. fdiv (fmul zi (Fin (real_of_int ui - py))) (Fin fy)) z u;
                   d = Fin (real_of_int (depth_image_units_divisor self));
                   points_3d = map (\<lambda>(xi, yi, zi). (fdiv xi d, fdiv yi d, fdiv zi d))
                                 (zip x (zip y z))
               in Inr \<lparr>kp3_data = generate_message [] (zip points_3d (keypoints detection)),
                       kp3_frame_id = []\<rparr>)"

section \<open>The rigid transform\<close>

definition cross :: "vec3 \<Rightarrow> vec3 \<Rightarrow> vec3" where
  "cross a b =
     (case a of (a1, a2, a3) \<Rightarrow> case b of (b1, b2, b3) \<Rightarrow>
        (fsub (fmul a2 b3) (fmul a3 b2),
         fsub (fmul a3 b1) (fmul a1 b3),
         fsub (fmul a1 b2) (fmul a2 b1)))"

definition vadd :: "vec3 \<Rightarrow> vec3 \<Rightarrow> vec3" where
  "vadd a b = (case a of (a1, a2, a3) \<Rightarrow> case b of (b1, b2, b3) \<Rightarrow>
                 (fadd a1 b1, fadd a2 b2, fadd a3 b3))"

definition vscale :: "fl \<Rightarrow> vec3 \<Rightarrow> vec3" where
  "vscale c a = (case a of (a1, a2, a3) \<Rightarrow> (fmul c a1, fmul c a2, fmul c a3))"

text \<open>\<open>v + 2 * (uv * q[0] + uuv)\<close> with \<open>qvec = q[1:]\<close>.\<close>

definition qv_mult :: "quat \<Rightarrow> vec3 \<Rightarrow> vec3" where
  "qv_mult q v =
     (case q of (q0, q1, q2, q3) \<Rightarrow>
        let qvec = (q1, q2, q3);
            uv = cross qvec v;
            uuv = cross qvec uv
        in vadd v (vscale (Fin 2) (vadd (vscale q0 uv) uuv)))"

definition transform_3d_box :: "BoundingBox3D \<Rightarrow> vec3 \<Rightarrow> quat \<Rightarrow> BoundingBox3D" where
  "transform_3d_box b translation rotation =
     (let position = vadd (qv_mult rotation (center b)) translation;
          sz = qv_mult rotation (size3 b)
      in b\<lparr>center := position,
            size3 := (case sz of (s0, s1, s2) \<Rightarrow> (fabs s0, fabs s1, fabs s2))\<rparr>)"

definition transform_3d_keypoints :: "KeyPoint3DArray \<Rightarrow> vec3 \<Rightarrow> quat \<Rightarrow> KeyPoint3DArray" where
  "transform_3d_keypoints keypoints_arr translation rotation =
     keypoints_arr\<lparr>kp3_data :=
       map (\<lambda>point. point\<lparr>kp3_point := vadd (qv_mult rotation (kp3_point point)) translation\<rparr>)
           (kp3_data keypoints_arr)\<rparr>"

section \<open>The pipeline\<close>

text \<open>
  The frame lookup is a collaborator: \<open>tf_buffer.lookup_transform\<close> either returns a stamped
  transform or raises \<open>TransformException\<close> with a message. The logger is the list of the
  messages written with \<open>get_logger().error\<close>.
\<close>

record TransformStamped =
  translation_x :: fl
  translation_y :: fl
  translation_z :: fl
  rotation_x :: fl
  rotation_y :: fl
  rotation_z :: fl
  rotation_w :: fl

type_synonym tf_buffer = "string \<Rightarrow> string \<Rightarrow> string + TransformStamped"

definition get_transform ::
  "node \<Rightarrow> tf_buffer \<Rightarrow> string \<Rightarrow> (vec3 \<times> quat) option \<times> string list" where
  "get_transform self tf frame =
     (case tf (target_frame self) frame of
        Inr t \<Rightarrow>
          (Some ((translation_x t, translation_y t, translation_z t),
                 (rotation_w t, rotation_x t, rotation_y t, rotation_z t)), [])
      | Inl ex \<Rightarrow> (None, [''Could not transform: '' @ ex]))"

text \<open>
  The body of the loop of \<open>process_detections\<close>; \<open>new_detections\<close> is the accumulator. An
  \<open>IndexError\<close> of \<open>convert_keypoints_to_3d\<close> is not caught and ends the call.
\<close>

fun process_loop ::
  "node \<Rightarrow> image \<Rightarrow> CameraInfo \<Rightarrow> vec3 \<times> quat \<Rightarrow> ('a Detection_scheme) list
     \<Rightarrow> ('a Detection_scheme) list \<Rightarrow> py_error + ('a Detection_scheme) list" where
  "process_loop self depth_image depth_info transform new_detections [] = Inr new_detections"
| "process_loop self depth_image depth_info transform new_detections (detection # rest) =
     (case convert_bb_to_3d self depth_image depth_info detection of
        None \<Rightarrow> process_loop self depth_image depth_info transform new_detections rest
      | Some b \<Rightarrow>
          let b' = (transform_3d_box b (fst transform) (snd transform))
                      \<lparr>frame_id := target_frame self\<rparr>;
              d' = detection\<lparr>bbox3d := b'\<rparr>
          in if keypoints detection \<noteq> []
             then (case convert_keypoints_to_3d self depth_image depth_info detection of
                     Inl e \<Rightarrow> Inl e
                   | Inr ks \<Rightarrow>
                       process_loop self depth_image depth_info transform
                         (new_detections @
                            [d'\<lparr>keypoints3d :=
                                 (transform_3d_keypoints ks (fst transform) (snd transform))
                                   \<lparr>kp3_frame_id := target_frame self\<rparr>\<rparr>])
                         rest)
             else process_loop self depth_image depth_info transform
                    (new_detections @ [d']) rest)"

definition process_detections ::
  "node \<Rightarrow> tf_buffer \<Rightarrow> image \<Rightarrow> CameraInfo \<Rightarrow> ('a Detection_scheme) list
     \<Rightarrow> (py_error + ('a Detection_scheme) list) \<times> string list" where
  "process_detections self tf depth_image depth_info detections =
     (if detections = [] then (Inr [], [])
      else
        case get_transform self tf (info_frame_id depth_info) of
          (None, msgs) \<Rightarrow> (Inr [], msgs)
        | (Some transform, msgs) \<Rightarrow>
            (process_loop self depth_image depth_info transform [] detections, msgs))"

section \<open>Float fields as received\<close>

text \<open>
  The coordinates of a box and of a keypoint are float64 fields of the message: nothing keeps
  them from being NaN or infinite. \<open>convert_bb_to_3d\<close> passes them to \<open>int(...)\<close>, which
  raises \<open>ValueError\<close> on NaN and \<open>OverflowError\<close> on an infinity; nothing catches either.
  The records above hold finite coordinates; the ones below hold the fields as they arrive.
  A score is only compared, which raises nothing, and stays a real number.
\<close>

definition py_int_float :: "fl \<Rightarrow> py_error + int" where
  "py_int_float x =
     (case x of Fin r \<Rightarrow> Inr (py_int r) | NaN \<Rightarrow> Inl ValueError | _ \<Rightarrow> Inl OverflowError)"

record Point2D_float =
  fp_x :: fl
  fp_y :: fl

record KeyPoint2D_float =
  fkp_id :: int
  fkp_point :: Point2D_float
  fkp_score :: real

record BoundingBox2D_float =
  fcenter2 :: Point2D_float
  fsize2 :: Point2D_float

record Detection_float =
  fbbox :: BoundingBox2D_float
  fkeypoints :: "KeyPoint2D_float list"

definition KeyPoint2D_float_default :: KeyPoint2D_float where
  "KeyPoint2D_float_default =
     \<lparr>fkp_id = 0, fkp_point = \<lparr>fp_x = Fin 0, fp_y = Fin 0\<rparr>, fkp_score = 0\<rparr>"

record fkp_state =
  fkp5 :: KeyPoint2D_float
  fkp6 :: KeyPoint2D_float
  fkp11 :: KeyPoint2D_float
  fkp12 :: KeyPoint2D_float
  fup_detected :: bool
  fdown_detected :: bool

definition fkp_init :: fkp_state where
  "fkp_init = \<lparr>fkp5 = KeyPoint2D_float_default, fkp6 = KeyPoint2D_float_default,
               fkp11 = KeyPoint2D_float_default, fkp12 = KeyPoint2D_float_default,
               fup_detected = False, fdown_detected = False\<rparr>"

definition fkp_step :: "fkp_state \<Rightarrow> KeyPoint2D_float \<Rightarrow> fkp_state" where
  "fkp_step s kp =
     (if fkp_id kp = 5 then s\<lparr>fkp5 := kp, fup_detected := True\<rparr>
      else if fkp_id kp = 6 then s\<lparr>fkp6 := kp, fup_detected := True\<rparr>
      else if fkp_id kp = 11 then s\<lparr>fkp11 := kp, fdown_detected := True\<rparr>
      else if fkp_id kp = 12 then s\<lparr>fkp12 := kp, fdown_detected := True\<rparr>
      else s)"

definition fget_keypoints :: "KeyPoint2D_float list \<Rightarrow> fkp_state" where
  "fget_keypoints kps = foldl fkp_step fkp_init kps"

definition fbetter :: "KeyPoint2D_float \<Rightarrow> KeyPoint2D_float \<Rightarrow> KeyPoint2D_float" where
  "fbetter a b = (if fkp_score b < fkp_score a then a else b)"

text \<open>
  The sum of two float64 values overflows: an exact result of magnitude \<open>2^1024 - 2^970\<close> or
  more is rounded to an infinity. The rounding of a smaller result is not modelled.
\<close>

definition float64_overflow :: real where
  "float64_overflow = 2 ^ 1024 - 2 ^ 970"

definition fadd64 :: "fl \<Rightarrow> fl \<Rightarrow> fl" where
  "fadd64 a b =
     (case fadd a b of
        Fin r \<Rightarrow> if float64_overflow \<le> r then PInf
                 else if r \<le> - float64_overflow then NInf else Fin r
      | x \<Rightarrow> x)"

text \<open>\<open>((up.point.x + down.point.x) / 2, (up.point.y + down.point.y) / 2)\<close>\<close>

definition fmidpoint2 :: "KeyPoint2D_float \<Rightarrow> KeyPoint2D_float \<Rightarrow> fl \<times> fl" where
  "fmidpoint2 up down =
     (fdiv (fadd64 (fp_x (fkp_point up)) (fp_x (fkp_point down))) (Fin 2),
      fdiv (fadd64 (fp_y (fkp_point up)) (fp_y (fkp_point down))) (Fin 2))"

text \<open>
  The values of \<open>center_x\<close> and \<open>center_y\<close> after the four blocks on the keypoints, before
  the two \<open>int(...)\<close> conversions that follow them.
\<close>

definition anchor_float :: "int \<times> int \<Rightarrow> KeyPoint2D_float list \<Rightarrow> fl \<times> fl" where
  "anchor_float c kps =
     (let s = fget_keypoints kps;
          c0 = (Fin (real_of_int (fst c)), Fin (real_of_int (snd c)));
          c1 = (if fup_detected s \<and> fdown_detected s
                then fmidpoint2 (fbetter (fkp5 s) (fkp6 s)) (fbetter (fkp11 s) (fkp12 s)) else c0);
          c2 = (if fup_detected s \<and> \<not> fdown_detected s
                then (fp_x (fkp_point (fbetter (fkp5 s) (fkp6 s))),
                      fp_y (fkp_point (fbetter (fkp5 s) (fkp6 s)))) else c1);
          c3 = (if fdown_detected s \<and> \<not> fup_detected s
                then (fp_x (fkp_point (fbetter (fkp11 s) (fkp12 s))),
                      fp_y (fkp_point (fbetter (fkp11 s) (fkp12 s)))) else c2);
          c4 = (if fup_detected s \<and> fdown_detected s
                then fmidpoint2 (fbetter (fkp5 s) (fkp6 s)) (fbetter (fkp11 s) (fkp12 s)) else c3)
      in c4)"

text \<open>
  The rest of \<open>convert_bb_to_3d\<close>, from the check of the anchor against the image limits to
  the message: a function of the region, the integer anchor and the integer size.
\<close>

definition box_from_anchor ::
  "node \<Rightarrow> image \<Rightarrow> CameraInfo \<Rightarrow> fl list list \<Rightarrow> int \<times> int \<Rightarrow> int \<times> int
     \<Rightarrow> BoundingBox3D option" where
  "box_from_anchor self depth_image depth_info roi c sz =
     (case c of (cx, cy) \<Rightarrow> case sz of (size_x, size_y) \<Rightarrow>
        if cx < 0 \<or> int (cols depth_image) \<le> cx \<or> cy < 0 \<or> int (rows depth_image) \<le> cy
        then None
        else
          let bb_center_z_coord =
                fdiv (pixel depth_image (nat cy) (nat cx))
                     (Fin (real_of_int (depth_image_units_divisor self)))
          in if isnan bb_center_z_coord \<or> bb_center_z_coord = Fin 0
                  \<or> isinf bb_center_z_coord
             then None
             else if \<not> (ma_any_isfinite roi \<and> ma_any_nonzero roi) then None
             else
               let average_z_coord = average_z roi;
                   thr = roi_threshold self roi average_z_coord
               in if thr = [] then None
                  else
                    let z_min = Min (set thr);
                        z_max = Max (set thr);
                        px = k depth_info 2; py = k depth_info 5;
                        fx = k depth_info 0; fy = k depth_info 4;
                        x = fdiv (fmul average_z_coord (Fin (real_of_int cx - px))) (Fin fx);
                        y = fdiv (fmul average_z_coord (Fin (real_of_int cy - py))) (Fin fy);
                        w = fmul average_z_coord (fdiv (Fin (real_of_int size_x)) (Fin fx));
                        h = fmul average_z_coord (fdiv (Fin (real_of_int size_y)) (Fin fy))
                    in Some \<lparr>center = (x, y, average_z_coord),
                             size3 = (w, h, Fin (z_max - z_min)),
                             frame_id = []\<rparr>)"

text \<open>
  \<open>convert_bb_to_3d\<close> on the fields as received. The four conversions of the box come first,
  then the crop and its check, then the keypoints and the two conversions of the anchor.
\<close>

definition convert_bb_to_3d_float ::
  "node \<Rightarrow> image \<Rightarrow> CameraInfo \<Rightarrow> Detection_float \<Rightarrow> py_error + BoundingBox3D option" where
  "convert_bb_to_3d_float self depth_image depth_info detection =
     (case py_int_float (fp_x (fcenter2 (fbbox detection))) of
        Inl e \<Rightarrow> Inl e
      | Inr center_x \<Rightarrow>
     (case py_int_float (fp_y (fcenter2 (fbbox detection))) of
        Inl e \<Rightarrow> Inl e
      | Inr center_y \<Rightarrow>
     (case py_int_float (fp_x (fsize2 (fbbox detection))) of
        Inl e \<Rightarrow> Inl e
      | Inr size_x \<Rightarrow>
     (case py_int_float (fp_y (fsize2 (fbbox detection))) of
        Inl e \<Rightarrow> Inl e
      | Inr size_y \<Rightarrow>
          let roi = crop_roi self depth_image center_x center_y size_x size_y
          in if \<not> np_any roi then Inr None
             else
               (case py_int_float
                       (fst (anchor_float (center_x, center_y) (fkeypoints detection))) of
                  Inl e \<Rightarrow> Inl e
                | Inr cx \<Rightarrow>
               (case py_int_float
                       (snd (anchor_float (center_x, center_y) (fkeypoints detection))) of
                  Inl e \<Rightarrow> Inl e
                | Inr cy \<Rightarrow>
                    Inr (box_from_anchor self depth_image depth_info roi (cx, cy)
                           (size_x, size_y))))))))"

section \<open>Notions used in the statements\<close>

definition box_roi :: "node \<Rightarrow> image \<Rightarrow> ('a Detection_scheme) \<Rightarrow> fl list list" where
  "box_roi self img det =
     crop_roi self img (py_int (p_x (center2 (bbox det)))) (py_int (p_y (center2 (bbox det))))
                       (py_int (p_x (size2 (bbox det)))) (py_int (p_y (size2 (bbox det))))"

definition anchor :: "('a Detection_scheme) \<Rightarrow> int \<times> int" where
  "anchor det = resolve_anchor (py_int (p_x (center2 (bbox det))), py_int (p_y (center2 (bbox det))))
                  (keypoints det)"

definition anchor_in_bounds :: "image \<Rightarrow> ('a Detection_scheme) \<Rightarrow> bool" where
  "anchor_in_bounds img det =
     (0 \<le> fst (anchor det) \<and> fst (anchor det) < int (cols img) \<and>
      0 \<le> snd (anchor det) \<and> snd (anchor det) < int (rows img))"

definition anchor_depth :: "node \<Rightarrow> image \<Rightarrow> ('a Detection_scheme) \<Rightarrow> fl" where
  "anchor_depth self img det =
     fdiv (pixel img (nat (snd (anchor det))) (nat (fst (anchor det))))
          (Fin (real_of_int (depth_image_units_divisor self)))"

definition positive_samples :: "fl list \<Rightarrow> real list" where
  "positive_samples roi = filter (\<lambda>a. 0 < a) (fin_vals roi)"

definition mean :: "real list \<Rightarrow> real" where
  "mean xs = sum_list xs / real (length xs)"

definition consensus :: "real \<Rightarrow> fl list \<Rightarrow> real \<Rightarrow> real list" where
  "consensus thr roi m = filter (\<lambda>a. \<bar>a - m\<bar> \<le> thr) (fin_vals roi)"

definition box_of ::
  "CameraInfo \<Rightarrow> int \<times> int \<Rightarrow> int \<times> int \<Rightarrow> real \<Rightarrow> real list \<Rightarrow> BoundingBox3D" where
  "box_of info a sz m c =
     \<lparr>center =
        (fdiv (fmul (Fin m) (Fin (real_of_int (fst a) - k info 2))) (Fin (k info 0)),
         fdiv (fmul (Fin m) (Fin (real_of_int (snd a) - k info 5))) (Fin (k info 4)),
         Fin m),
      size3 =
        (fmul (Fin m) (fdiv (Fin (real_of_int (fst sz))) (Fin (k info 0))),
         fmul (Fin m) (fdiv (Fin (real_of_int (snd sz))) (Fin (k info 4))),
         Fin (Max (set c) - Min (set c))),
      frame_id = []\<rparr>"

text \<open>A small frame used to instantiate the theorems: a 4 x 4 image of constant depth.\<close>

definition ex_node :: node where
  "ex_node = \<lparr>target_frame = ''base_link'', maximum_detection_threshold = 3 / 10,
               depth_image_units_divisor = 1000\<rparr>"

definition ex_image :: image where
  "ex_image = \<lparr>rows = 4, cols = 4, pixel = (\<lambda>r c. Fin 2000)\<rparr>"

definition ex_info :: CameraInfo where
  "ex_info = \<lparr>info_frame_id = ''camera'', height = 4, width = 4,
               k = (\<lambda>i. if i = 0 \<or> i = 4 then 500 else 0)\<rparr>"

definition BoundingBox3D_default :: BoundingBox3D where
  "BoundingBox3D_default = \<lparr>center = (Fin 0, Fin 0, Fin 0), size3 = (Fin 0, Fin 0, Fin 0),
                             frame_id = []\<rparr>"

definition ex_detection :: "real \<Rightarrow> real \<Rightarrow> KeyPoint2D list \<Rightarrow> Detection" where
  "ex_detection cx cy kps =
     \<lparr>bbox = \<lparr>center2 = \<lparr>p_x = cx, p_y = cy\<rparr>, size2 = \<lparr>p_x = 2, p_y = 2\<rparr>\<rparr>,
      keypoints = kps, bbox3d = BoundingBox3D_default,
      keypoints3d = \<lparr>kp3_data = [], kp3_frame_id = []\<rparr>\<rparr>"

definition ex_kp :: "int \<Rightarrow> real \<Rightarrow> real \<Rightarrow> real \<Rightarrow> KeyPoint2D" where
  "ex_kp i x y s = \<lparr>kp_id = i, kp_point = \<lparr>p_x = x, p_y = y\<rparr>, kp_score = s\<rparr>"

text \<open>A 200 x 200 frame of constant raw depth 2000.\<close>

definition ex_image200 :: image where
  "ex_image200 = \<lparr>rows = 200, cols = 200, pixel = (\<lambda>r c. Fin 2000)\<rparr>"

definition ex_detection100 :: Detection where
  "ex_detection100 =
     \<lparr>bbox = \<lparr>center2 = \<lparr>p_x = 100, p_y = 100\<rparr>, size2 = \<lparr>p_x = 40, p_y = 40\<rparr>\<rparr>,
      keypoints = [], bbox3d = BoundingBox3D_default,
      keypoints3d = \<lparr>kp3_data = [], kp3_frame_id = []\<rparr>\<rparr>"

text \<open>An uncalibrated camera: the intrinsic matrix is zero.\<close>

definition ex_info0 :: CameraInfo where
  "ex_info0 = \<lparr>info_frame_id = ''camera'', height = 4, width = 4, k = (\<lambda>i. 0)\<rparr>"

text \<open>An integer reduced modulo \<open>2^16\<close> into the signed range \<open>-32768 .. 32767\<close>.\<close>

definition signed16 :: "int \<Rightarrow> int" where
  "signed16 i = (i + 32768) mod 65536 - 32768"

text \<open>
  What \<open>convert_keypoints_to_3d\<close> computes for one keypoint: the row \<open>u\<close> and the column
  \<open>v\<close> it samples, the sample, and the projected point.
\<close>

definition kp_u :: "CameraInfo \<Rightarrow> KeyPoint2D \<Rightarrow> int" where
  "kp_u info p = np_clip (np_int16 (p_y (kp_point p))) 0 (int (height info) - 1)"

definition kp_v :: "CameraInfo \<Rightarrow> KeyPoint2D \<Rightarrow> int" where
  "kp_v info p = np_clip (np_int16 (p_x (kp_point p))) 0 (int (width info) - 1)"

definition wrap_index :: "nat \<Rightarrow> int \<Rightarrow> nat" where
  "wrap_index n i = (if i < 0 then nat (i + int n) else nat i)"

definition kp_index_ok :: "image \<Rightarrow> CameraInfo \<Rightarrow> KeyPoint2D \<Rightarrow> bool" where
  "kp_index_ok img info p =
     (- int (rows img) \<le> kp_u info p \<and> kp_u info p < int (rows img) \<and>
      - int (cols img) \<le> kp_v info p \<and> kp_v info p < int (cols img))"

definition kp_depth :: "image \<Rightarrow> CameraInfo \<Rightarrow> KeyPoint2D \<Rightarrow> fl" where
  "kp_depth img info p =
     pixel img (wrap_index (rows img) (kp_u info p)) (wrap_index (cols img) (kp_v info p))"

definition kp_position :: "node \<Rightarrow> image \<Rightarrow> CameraInfo \<Rightarrow> KeyPoint2D \<Rightarrow> vec3" where
  "kp_position self img info p =
     (let z = kp_depth img info p;
          d = Fin (real_of_int (depth_image_units_divisor self))
      in (fdiv (fdiv (fmul z (Fin (real_of_int (kp_v info p) - k info 2))) (Fin (k info 0))) d,
          fdiv (fdiv (fmul z (Fin (real_of_int (kp_u info p) - k info 5))) (Fin (k info 4))) d,
          fdiv z d))"

definition kp_message :: "node \<Rightarrow> image \<Rightarrow> CameraInfo \<Rightarrow> KeyPoint2D \<Rightarrow> KeyPoint3D" where
  "kp_message self img info p =
     \<lparr>kp3_point = kp_position self img info p, kp3_id = kp_id p, kp3_score = kp_score p\<rparr>"

text \<open>A 4 x 4 frame whose raw depth is \<open>1000 (4 r + c + 1)\<close> at row \<open>r\<close> and column \<open>c\<close>.\<close>

definition ex_ramp :: image where
  "ex_ramp = \<lparr>rows = 4, cols = 4, pixel = (\<lambda>r c. Fin (1000 * real (4 * r + c + 1)))\<rparr>"

text \<open>A 4 x 4 frame of raw depth 2000 whose sample at row 1, column 1 is not a number.\<close>

definition ex_nan :: image where
  "ex_nan = \<lparr>rows = 4, cols = 4, pixel = (\<lambda>r c. if r = 1 \<and> c = 1 then NaN else Fin 2000)\<rparr>"

text \<open>
  An output detection \<open>d'\<close> is the input detection \<open>d\<close> carrying its 3D box: the box of
  \<open>convert_bb_to_3d\<close>, transformed and stamped with the target frame. Its 3D keypoints may
  have been replaced too; every other field is the input's.
\<close>

definition carries_box ::
  "node \<Rightarrow> image \<Rightarrow> CameraInfo \<Rightarrow> vec3 \<times> quat \<Rightarrow> ('a Detection_scheme)
     \<Rightarrow> ('a Detection_scheme) \<Rightarrow> bool" where
  "carries_box self img info tr d' d =
     (case convert_bb_to_3d self img info d of
        None \<Rightarrow> False
      | Some b \<Rightarrow>
          d' = d\<lparr>bbox3d := (transform_3d_box b (fst tr) (snd tr))\<lparr>frame_id := target_frame self\<rparr>,
                 keypoints3d := keypoints3d d'\<rparr>)"

definition transform_of :: "TransformStamped \<Rightarrow> vec3 \<times> quat" where
  "transform_of t =
     ((translation_x t, translation_y t, translation_z t),
      (rotation_w t, rotation_x t, rotation_y t, rotation_z t))"

text \<open>Two frame lookups: one that fails, one that returns the identity transform.\<close>

definition ex_tf_fail :: tf_buffer where
  "ex_tf_fail = (\<lambda>target source. Inl ''frame does not exist'')"

definition ex_tf_id :: tf_buffer where
  "ex_tf_id = (\<lambda>target source.
     Inr \<lparr>translation_x = Fin 0, translation_y = Fin 0, translation_z = Fin 0,
          rotation_x = Fin 0, rotation_y = Fin 0, rotation_z = Fin 0, rotation_w = Fin 1\<rparr>)"

text \<open>
  The anchor as the specification words it. \<open>find_kp i\<close> is the keypoint of the detection
  with id \<open>i\<close> (the last one, should the id occur twice); the candidate of a pair is the
  one with the higher score among those present.
\<close>

definition find_kp :: "int \<Rightarrow> KeyPoint2D list \<Rightarrow> KeyPoint2D option" where
  "find_kp i kps =
     (if filter (\<lambda>p. kp_id p = i) kps = [] then None
      else Some (last (filter (\<lambda>p. kp_id p = i) kps)))"

definition candidate :: "int \<Rightarrow> int \<Rightarrow> KeyPoint2D list \<Rightarrow> KeyPoint2D option" where
  "candidate i j kps =
     (case (find_kp i kps, find_kp j kps) of
        (None, None) \<Rightarrow> None
      | (Some a, None) \<Rightarrow> Some a
      | (None, Some b) \<Rightarrow> Some b
      | (Some a, Some b) \<Rightarrow> Some (if kp_score b < kp_score a then a else b))"

definition anchor_spec :: "int \<times> int \<Rightarrow> KeyPoint2D list \<Rightarrow> int \<times> int" where
  "anchor_spec c kps =
     (case (candidate 5 6 kps, candidate 11 12 kps) of
        (None, None) \<Rightarrow> c
      | (Some up, None) \<Rightarrow> (py_int (p_x (kp_point up)), py_int (p_y (kp_point up)))
      | (None, Some down) \<Rightarrow> (py_int (p_x (kp_point down)), py_int (p_y (kp_point down)))
      | (Some up, Some down) \<Rightarrow>
          (py_int ((p_x (kp_point up) + p_x (kp_point down)) / 2),
           py_int ((p_y (kp_point up) + p_y (kp_point down)) / 2)))"

text \<open>The keypoint that the loop of \<open>convert_bb_to_3d\<close> leaves in the variable for id \<open>i\<close>.\<close>

definition slot :: "int \<Rightarrow> KeyPoint2D list \<Rightarrow> KeyPoint2D" where
  "slot i kps = (case find_kp i kps of None \<Rightarrow> KeyPoint2D_default | Some p \<Rightarrow> p)"

text \<open>A message with finite coordinates, written into the float fields it arrives in.\<close>

definition float_kp :: "KeyPoint2D \<Rightarrow> KeyPoint2D_float" where
  "float_kp p =
     \<lparr>fkp_id = kp_id p,
      fkp_point = \<lparr>fp_x = Fin (p_x (kp_point p)), fp_y = Fin (p_y (kp_point p))\<rparr>,
      fkp_score = kp_score p\<rparr>"

definition float_state :: "kp_state \<Rightarrow> fkp_state" where
  "float_state s =
     \<lparr>fkp5 = float_kp (kp5 s), fkp6 = float_kp (kp6 s),
      fkp11 = float_kp (kp11 s), fkp12 = float_kp (kp12 s),
      fup_detected = up_detected s, fdown_detected = down_detected s\<rparr>"

definition float_detection :: "('a Detection_scheme) \<Rightarrow> Detection_float" where
  "float_detection d =
     \<lparr>fbbox = \<lparr>fcenter2 = \<lparr>fp_x = Fin (p_x (center2 (bbox d))),
                            fp_y = Fin (p_y (center2 (bbox d)))\<rparr>,
                fsize2 = \<lparr>fp_x = Fin (p_x (size2 (bbox d))),
                          fp_y = Fin (p_y (size2 (bbox d)))\<rparr>\<rparr>,
      fkeypoints = map float_kp (keypoints d)\<rparr>"

text \<open>
  Keypoint coordinates of magnitude at most \<open>2^1022\<close>: the sum of two of them stays below
  the overflow of float64.
\<close>

definition coordinate_bound :: real where
  "coordinate_bound = 2 ^ 1022"

definition kp_bounded :: "KeyPoint2D \<Rightarrow> bool" where
  "kp_bounded p \<longleftrightarrow>
     \<bar>p_x (kp_point p)\<bar> \<le> coordinate_bound \<and> \<bar>p_y (kp_point p)\<bar> \<le> coordinate_bound"

definition keypoints_bounded :: "('a Detection_scheme) \<Rightarrow> bool" where
  "keypoints_bounded d \<longleftrightarrow> list_all kp_bounded (keypoints d)"

text \<open>Messages with a coordinate that is not finite, on the 4 x 4 frame.\<close>

definition ex_fkp :: "int \<Rightarrow> fl \<Rightarrow> fl \<Rightarrow> real \<Rightarrow> KeyPoint2D_float" where
  "ex_fkp i x y s = \<lparr>fkp_id = i, fkp_point = \<lparr>fp_x = x, fp_y = y\<rparr>, fkp_score = s\<rparr>"

definition ex_detection_float :: "fl \<Rightarrow> fl \<Rightarrow> KeyPoint2D_float list \<Rightarrow> Detection_float" where
  "ex_detection_float cx cy kps =
     \<lparr>fbbox = \<lparr>fcenter2 = \<lparr>fp_x = cx, fp_y = cy\<rparr>, fsize2 = \<lparr>fp_x = Fin 2, fp_y = Fin 2\<rparr>\<rparr>,
      fkeypoints = kps\<rparr>"

text \<open>A \<open>CameraInfo\<close> that declares 8 x 8 pixels.\<close>

definition ex_info8 :: CameraInfo where
  "ex_info8 = \<lparr>info_frame_id = ''camera'', height = 8, width = 8,
                k = (\<lambda>i. if i = 0 \<or> i = 4 then 500 else 0)\<rparr>"

section \<open>Properties of the 3D box\<close>

lemma fin_vals_filter_nan: "fin_vals (filter (\<lambda>s. fle (fabs (fsub s NaN)) (Fin t)) xs) = []"
proof (induction xs)
  case Nil
  then show ?case by simp
next
  case (Cons a xs)
  then show ?case by (cases a) (simp_all add: fsub_def)
qed

lemma fin_vals_filter_fin:
  "fin_vals (filter (\<lambda>s. fle (fabs (fsub s (Fin m))) (Fin t)) xs) =
     filter (\<lambda>a. \<bar>a - m\<bar> \<le> t) (fin_vals xs)"
proof (induction xs)
  case Nil
  then show ?case by simp
next
  case (Cons a xs)
  then show ?case by (cases a) (simp_all add: fsub_def)
qed

lemma roi_threshold_nan: "roi_threshold self roi NaN = []"
  by (simp add: roi_threshold_def fin_vals_filter_nan)

lemma roi_threshold_fin:
  "roi_threshold self roi (Fin m) = consensus (maximum_detection_threshold self) (concat roi) m"
  by (simp add: roi_threshold_def consensus_def fin_vals_filter_fin)

lemma average_z_eq:
  "average_z roi = (if positive_samples (concat roi) = [] then NaN
                    else Fin (mean (positive_samples (concat roi))))"
  by (simp add: average_z_def np_mean_def positive_samples_def mean_def)

lemma positive_imp_masked_checks:
  assumes "positive_samples (concat roi) \<noteq> []"
  shows "ma_any_isfinite roi \<and> ma_any_nonzero roi"
proof -
  from assms obtain a where a: "a \<in> set (fin_vals (concat roi))" "0 < a"
    by (auto simp: positive_samples_def filter_empty_conv)
  then have "a \<noteq> 0" by simp
  with a show ?thesis
    unfolding ma_any_isfinite_def ma_any_nonzero_def list_ex_iff by fastforce
qed

lemma convert_bb_to_3d_unfold:
  "convert_bb_to_3d self img info det =
     (if \<not> np_any (box_roi self img det) then None
      else if \<not> anchor_in_bounds img det then None
      else if isnan (anchor_depth self img det) \<or> anchor_depth self img det = Fin 0
                \<or> isinf (anchor_depth self img det) then None
      else if \<not> (ma_any_isfinite (box_roi self img det) \<and> ma_any_nonzero (box_roi self img det))
           then None
      else if roi_threshold self (box_roi self img det) (average_z (box_roi self img det)) = []
           then None
      else Some \<lparr>center =
                   (fdiv (fmul (average_z (box_roi self img det)) (Fin (real_of_int (fst (anchor det)) - k info 2))) (Fin (k info 0)),
                    fdiv (fmul (average_z (box_roi self img det)) (Fin (real_of_int (snd (anchor det)) - k info 5))) (Fin (k info 4)),
                    average_z (box_roi self img det)),
                 size3 =
                   (fmul (average_z (box_roi self img det)) (fdiv (Fin (real_of_int (py_int (p_x (size2 (bbox det)))))) (Fin (k info 0))),
                    fmul (average_z (box_roi self img det)) (fdiv (Fin (real_of_int (py_int (p_y (size2 (bbox det)))))) (Fin (k info 4))),
                    Fin (Max (set (roi_threshold self (box_roi self img det) (average_z (box_roi self img det))))
                       - Min (set (roi_threshold self (box_roi self img det) (average_z (box_roi self img det)))))),
                 frame_id = []\<rparr>)"
  unfolding convert_bb_to_3d_def Let_def box_roi_def [symmetric] anchor_def [symmetric]
    anchor_in_bounds_def anchor_depth_def case_prod_beta
  by (simp only: not_le not_less de_Morgan_disj de_Morgan_conj not_not cong: if_cong)


lemma set_fin_vals: "set (fin_vals xs) = {a. Fin a \<in> set xs}"
proof (induction xs)
  case Nil
  then show ?case by simp
next
  case (Cons x xs)
  then show ?case by (cases x) auto
qed

lemma positive_imp_np_any:
  assumes "positive_samples (concat roi) \<noteq> []"
  shows "np_any roi"
proof -
  from assms obtain a where "a \<in> set (fin_vals (concat roi))" "0 < a"
    by (auto simp: positive_samples_def filter_empty_conv)
  then have "Fin a \<in> set (concat roi)" "Fin a \<noteq> Fin 0"
    by (simp_all add: set_fin_vals)
  then show ?thesis
    unfolding np_any_def list_ex_iff by blast
qed

lemma convert_bb_to_3d_eq:
  "convert_bb_to_3d self img info det =
     (if \<not> np_any (box_roi self img det) \<or> \<not> anchor_in_bounds img det
          \<or> isnan (anchor_depth self img det) \<or> anchor_depth self img det = Fin 0
          \<or> isinf (anchor_depth self img det)
          \<or> positive_samples (concat (box_roi self img det)) = []
          \<or> consensus (maximum_detection_threshold self) (concat (box_roi self img det))
               (mean (positive_samples (concat (box_roi self img det)))) = []
      then None
      else Some (box_of info (anchor det)
                   (py_int (p_x (size2 (bbox det))), py_int (p_y (size2 (bbox det))))
                   (mean (positive_samples (concat (box_roi self img det))))
                   (consensus (maximum_detection_threshold self) (concat (box_roi self img det))
                      (mean (positive_samples (concat (box_roi self img det)))))))"
proof (cases "positive_samples (concat (box_roi self img det)) = []")
  case True
  then show ?thesis
    by (simp add: convert_bb_to_3d_unfold average_z_eq roi_threshold_nan)
next
  case False
  then have "ma_any_isfinite (box_roi self img det) \<and> ma_any_nonzero (box_roi self img det)"
    by (rule positive_imp_masked_checks)
  with False show ?thesis
    by (simp add: convert_bb_to_3d_unfold average_z_eq roi_threshold_fin box_of_def)
qed

text \<open>
  Claim C1. When the cropped region holds a strictly positive finite sample and the anchor
  passes its checks (inside the image; depth there neither NaN, zero nor infinite), the box, if
  any, has \<open>center.z\<close> equal to the mean of the strictly positive finite samples of the region
  and \<open>size.z\<close> equal to the maximum minus the minimum of the finite samples whose distance
  to that mean is at most \<open>maximum_detection_threshold\<close>. A box is returned exactly when
  some sample lies that close to the mean. The depth at the anchor does not occur in either value.
\<close>

theorem box_depth_from_roi:
  assumes "\<exists>a. Fin a \<in> set (concat (box_roi self img det)) \<and> 0 < a"
    and "anchor_in_bounds img det"
    and "\<not> isnan (anchor_depth self img det)"
    and "anchor_depth self img det \<noteq> Fin 0"
    and "\<not> isinf (anchor_depth self img det)"
  shows "let roi = concat (box_roi self img det);
             m = mean (filter (\<lambda>a. 0 < a) (fin_vals roi));
             S = {a. Fin a \<in> set roi \<and> \<bar>a - m\<bar> \<le> maximum_detection_threshold self}
         in (S = {} \<longrightarrow> convert_bb_to_3d self img info det = None) \<and>
            (S \<noteq> {} \<longrightarrow>
               (\<exists>b. convert_bb_to_3d self img info det = Some b \<and>
                    snd (snd (center b)) = Fin m \<and>
                    snd (snd (size3 b)) = Fin (Max S - Min S)))"
proof -
  let ?roi = "concat (box_roi self img det)"
  let ?m = "mean (positive_samples ?roi)"
  let ?c = "consensus (maximum_detection_threshold self) ?roi ?m"
  from assms(1) have pos: "positive_samples ?roi \<noteq> []"
    by (auto simp: positive_samples_def filter_empty_conv set_fin_vals)
  then have any: "np_any (box_roi self img det)"
    by (rule positive_imp_np_any)
  have S: "set ?c = {a. Fin a \<in> set ?roi \<and> \<bar>a - ?m\<bar> \<le> maximum_detection_threshold self}"
    by (auto simp: consensus_def set_fin_vals)
  have eq: "convert_bb_to_3d self img info det =
      (if ?c = [] then None
       else Some (box_of info (anchor det)
                   (py_int (p_x (size2 (bbox det))), py_int (p_y (size2 (bbox det)))) ?m ?c))"
    using pos any assms(2-5) by (simp add: convert_bb_to_3d_eq)
  have "?c = [] \<longleftrightarrow> set ?c = {}" by simp
  with eq S show ?thesis
    unfolding Let_def positive_samples_def [symmetric]
    by (auto simp: box_of_def simp del: set_empty)
qed

lemma mean_const:
  assumes "xs \<noteq> []" and "\<forall>a\<in>set xs. a = c"
  shows "mean xs = c"
proof -
  from assms(2) have "xs = replicate (length xs) c"
    by (simp add: replicate_length_same)
  then have "sum_list xs = real (length xs) * c"
    by (metis sum_list_replicate)
  with assms(1) show ?thesis by (simp add: mean_def)
qed

lemma uniform_roi:
  assumes ne: "roi \<noteq> []" and all: "\<forall>s\<in>set roi. s = Fin c" and c: "0 < c" and t: "0 \<le> thr"
  shows "positive_samples roi \<noteq> []"
    and "mean (positive_samples roi) = c"
    and "set (consensus thr roi c) = {c}"
proof -
  from ne obtain s where "s \<in> set roi" by (cases roi) auto
  with all have mem: "Fin c \<in> set roi" by auto
  have fv: "set (fin_vals roi) = {c}"
    using all mem by (auto simp: set_fin_vals)
  then have pos_set: "set (positive_samples roi) = {c}"
    using c by (auto simp: positive_samples_def)
  then show pos: "positive_samples roi \<noteq> []" by auto
  from pos pos_set show "mean (positive_samples roi) = c"
    by (intro mean_const) auto
  show "set (consensus thr roi c) = {c}"
    using fv t by (auto simp: consensus_def)
qed

text \<open>
  On finite coordinates \<open>convert_bb_to_3d\<close> returns no box exactly when the cropped region
  has no non-zero value, or the anchor lies outside the image, or the depth at the anchor is
  NaN, zero or infinite, or the region has no strictly positive finite sample, or no finite
  sample lies within the threshold of their mean.
\<close>

theorem no_box_iff:
  "(convert_bb_to_3d self img info det = None \<longleftrightarrow>
      \<not> np_any (box_roi self img det)
      \<or> \<not> anchor_in_bounds img det
      \<or> isnan (anchor_depth self img det) \<or> anchor_depth self img det = Fin 0
      \<or> isinf (anchor_depth self img det)
      \<or> \<not> (\<exists>a. Fin a \<in> set (concat (box_roi self img det)) \<and> 0 < a)
      \<or> {a. Fin a \<in> set (concat (box_roi self img det)) \<and>
             \<bar>a - mean (filter (\<lambda>a. 0 < a) (fin_vals (concat (box_roi self img det))))\<bar>
               \<le> maximum_detection_threshold self} = {})
   \<and> (fst (anchor det) = int (cols img) \<longrightarrow> convert_bb_to_3d self img info det = None)
   \<and> (fst (anchor det) = - 1 \<longrightarrow> convert_bb_to_3d self img info det = None)
   \<and> (snd (anchor det) = int (rows img) \<longrightarrow> convert_bb_to_3d self img info det = None)"
proof -
  let ?roi = "concat (box_roi self img det)"
  have p: "positive_samples ?roi = [] \<longleftrightarrow> \<not> (\<exists>a. Fin a \<in> set ?roi \<and> 0 < a)"
    by (auto simp: positive_samples_def filter_empty_conv set_fin_vals)
  have c: "consensus (maximum_detection_threshold self) ?roi (mean (positive_samples ?roi)) = []
       \<longleftrightarrow> {a. Fin a \<in> set ?roi \<and>
             \<bar>a - mean (filter (\<lambda>a. 0 < a) (fin_vals ?roi))\<bar>
               \<le> maximum_detection_threshold self} = {}"
    by (auto simp: consensus_def positive_samples_def filter_empty_conv set_fin_vals)
  have iff: "convert_bb_to_3d self img info det = None \<longleftrightarrow>
      \<not> np_any (box_roi self img det)
      \<or> \<not> anchor_in_bounds img det
      \<or> isnan (anchor_depth self img det) \<or> anchor_depth self img det = Fin 0
      \<or> isinf (anchor_depth self img det)
      \<or> positive_samples ?roi = []
      \<or> consensus (maximum_detection_threshold self) ?roi (mean (positive_samples ?roi)) = []"
    by (simp add: convert_bb_to_3d_eq)
  have b1: "fst (anchor det) = int (cols img) \<Longrightarrow> \<not> anchor_in_bounds img det"
    and b2: "fst (anchor det) = - 1 \<Longrightarrow> \<not> anchor_in_bounds img det"
    and b3: "snd (anchor det) = int (rows img) \<Longrightarrow> \<not> anchor_in_bounds img det"
    by (simp_all add: anchor_in_bounds_def)
  from iff p c b1 b2 b3 show ?thesis by blast
qed

text \<open>
  The theorem at the 4 x 4 frame of constant depth: the region holds four samples of 2 m.
\<close>

theorem box_depth_from_roi_witness:
  "(\<exists>a. Fin a \<in> set (concat (box_roi ex_node ex_image (ex_detection 2 2 []))) \<and> 0 < a)
   \<and> anchor_in_bounds ex_image (ex_detection 2 2 [])
   \<and> \<not> isnan (anchor_depth ex_node ex_image (ex_detection 2 2 []))
   \<and> anchor_depth ex_node ex_image (ex_detection 2 2 []) \<noteq> Fin 0
   \<and> \<not> isinf (anchor_depth ex_node ex_image (ex_detection 2 2 []))
   \<and> (\<exists>b. convert_bb_to_3d ex_node ex_image ex_info (ex_detection 2 2 []) = Some b \<and>
           snd (snd (center b)) = Fin 2 \<and> snd (snd (size3 b)) = Fin 0)"
proof -
  let ?d = "ex_detection 2 2 []"
  have roi: "concat (box_roi ex_node ex_image ?d) = [Fin 2, Fin 2, Fin 2, Fin 2]"
    by code_simp
  have h1: "\<exists>a. Fin a \<in> set (concat (box_roi ex_node ex_image ?d)) \<and> 0 < a"
    unfolding roi by (intro exI [of _ 2]) simp
  have h2: "anchor_in_bounds ex_image ?d" by code_simp
  have dep: "anchor_depth ex_node ex_image ?d = Fin 2" by code_simp
  have h3: "\<not> isnan (anchor_depth ex_node ex_image ?d)"
    and h4: "anchor_depth ex_node ex_image ?d \<noteq> Fin 0"
    and h5: "\<not> isinf (anchor_depth ex_node ex_image ?d)"
    unfolding dep by simp_all
  have m: "mean (filter (\<lambda>a. 0 < a) (fin_vals [Fin 2, Fin 2, Fin 2, Fin 2])) = 2"
    by (simp add: mean_def)
  have S: "{a. Fin a \<in> set [Fin 2, Fin 2, Fin 2, Fin 2] \<and> \<bar>a - 2\<bar> \<le> maximum_detection_threshold ex_node} = {2}"
    by (auto simp: ex_node_def)
  from box_depth_from_roi [OF h1 h2 h3 h4 h5, of ex_info]
  have "\<exists>b. convert_bb_to_3d ex_node ex_image ex_info ?d = Some b \<and>
           snd (snd (center b)) = Fin 2 \<and> snd (snd (size3 b)) = Fin 0"
    unfolding Let_def roi m S by simp
  with h1 h2 h3 h4 h5 show ?thesis by blast
qed

lemma anchor_no_keypoints:
  "keypoints det = [] \<Longrightarrow>
     anchor det = (py_int (p_x (center2 (bbox det))), py_int (p_y (center2 (bbox det))))"
  by (simp add: anchor_def resolve_anchor_def get_keypoints_def kp_init_def py_int_def Let_def)

text \<open>
  Claim C7. A box with centre (100, 100) and size (40, 40), no keypoints, a frame that is
  uniformly 2000 raw units on the 40 x 40 region around (100, 100), divisor 1000 and intrinsics
  \<open>fx = fy = 500\<close>, \<open>px = py = 0\<close>: the box has centre \<open>(0.4, 0.4, 2.0)\<close> and size
  \<open>(0.16, 0.16, 0.0)\<close>. The frame must contain the anchor, and the threshold must not be
  negative.
\<close>

theorem uniform_scenario:
  assumes shape: "100 < rows img" "100 < cols img"
    and uniform: "\<forall>v u. 80 \<le> v \<and> v < 120 \<and> 80 \<le> u \<and> u < 120 \<longrightarrow> pixel img v u = Fin 2000"
    and divisor: "depth_image_units_divisor self = 1000"
    and thr: "0 \<le> maximum_detection_threshold self"
    and intr: "k info 0 = 500" "k info 4 = 500" "k info 2 = 0" "k info 5 = 0"
    and box: "bbox det = \<lparr>center2 = \<lparr>p_x = 100, p_y = 100\<rparr>, size2 = \<lparr>p_x = 40, p_y = 40\<rparr>\<rparr>"
    and nokp: "keypoints det = []"
  shows "\<exists>b. convert_bb_to_3d self img info det = Some b \<and>
             center b = (Fin (4 / 10), Fin (4 / 10), Fin 2) \<and>
             size3 b = (Fin (16 / 100), Fin (16 / 100), Fin 0)"
proof -
  let ?roi = "concat (box_roi self img det)"
  have pi: "py_int 100 = 100" "py_int 40 = 40" by (simp_all add: py_int_def)
  have an: "anchor det = (100, 100)"
    using nokp box by (simp add: anchor_no_keypoints pi)
  have inb: "anchor_in_bounds img det"
    using shape by (simp add: anchor_in_bounds_def an)
  have dep: "anchor_depth self img det = Fin 2"
    using uniform divisor by (simp add: anchor_depth_def an)
  have sb: "slice_bound n (min 120 (int n - 1)) \<le> 120"
       "100 < n \<Longrightarrow> 100 \<le> slice_bound n (min 120 (int n - 1))" for n
    by (auto simp: slice_bound_def min_def)
  have sb0: "slice_bound n 80 \<le> 80" "100 < n \<Longrightarrow> slice_bound n 80 = 80" for n
    by (auto simp: slice_bound_def min_def)
  have all: "\<forall>s\<in>set ?roi. s = Fin 2"
  proof
    fix s assume "s \<in> set ?roi"
    then obtain r c where rc: "80 \<le> r" "r < 120" "80 \<le> c" "c < 120"
      and s: "s = fdiv (pixel img r c) (Fin 1000)"
      using shape sb [of "rows img"] sb [of "cols img"] sb0 [of "rows img"] sb0 [of "cols img"]
      by (auto simp: box_roi_def box pi crop_roi_def np_slice2_def u_min_def u_max_def
          v_min_def v_max_def divisor)
    with uniform show "s = Fin 2" by simp
  qed
  have "fdiv (pixel img 80 80) (Fin 1000) \<in> set ?roi"
    using shape sb [of "rows img"] sb [of "cols img"] sb0 [of "rows img"] sb0 [of "cols img"]
    by (auto simp: box_roi_def box pi crop_roi_def np_slice2_def u_min_def u_max_def
        v_min_def v_max_def divisor intro!: bexI [of _ 80])
  then have ne: "?roi \<noteq> []" by (metis empty_iff empty_set)
  note u = uniform_roi [OF ne all _ thr]
  have pos: "positive_samples ?roi \<noteq> []" and m: "mean (positive_samples ?roi) = 2"
    and cs: "set (consensus (maximum_detection_threshold self) ?roi 2) = {2}"
    using u by simp_all
  from cs have cne: "consensus (maximum_detection_threshold self) ?roi 2 \<noteq> []" by auto
  have any: "np_any (box_roi self img det)"
    using pos by (rule positive_imp_np_any)
  show ?thesis
    using any inb pos cne
    by (simp add: convert_bb_to_3d_eq dep m cs box_of_def an intr box pi)
qed

text \<open>
  The scenario on a 200 x 200 frame of constant depth, with the default threshold 0.3.
\<close>

theorem uniform_scenario_witness:
  "100 < rows ex_image200 \<and> 100 < cols ex_image200
   \<and> pixel ex_image200 80 80 = Fin 2000 \<and> pixel ex_image200 119 119 = Fin 2000
   \<and> depth_image_units_divisor ex_node = 1000
   \<and> 0 \<le> maximum_detection_threshold ex_node
   \<and> (\<exists>b. convert_bb_to_3d ex_node ex_image200 ex_info ex_detection100 = Some b \<and>
           center b = (Fin (4 / 10), Fin (4 / 10), Fin 2) \<and>
           size3 b = (Fin (16 / 100), Fin (16 / 100), Fin 0))"
  using uniform_scenario [of ex_image200 ex_node ex_info ex_detection100]
  by (simp add: ex_image200_def ex_node_def ex_info_def ex_detection100_def)

section \<open>Properties of the sizes\<close>

lemma fabs_nonneg_or_nan: "fle (Fin 0) (fabs s) \<or> isnan (fabs s)"
  by (cases s) simp_all

lemma convert_bb_to_3d_Some:
  assumes "convert_bb_to_3d self img info det = Some b"
  shows "consensus (maximum_detection_threshold self) (concat (box_roi self img det))
              (mean (positive_samples (concat (box_roi self img det)))) \<noteq> []
         \<and> b = box_of info (anchor det)
                   (py_int (p_x (size2 (bbox det))), py_int (p_y (size2 (bbox det))))
                   (mean (positive_samples (concat (box_roi self img det))))
                   (consensus (maximum_detection_threshold self) (concat (box_roi self img det))
                      (mean (positive_samples (concat (box_roi self img det)))))"
proof -
  define P where "P \<longleftrightarrow> \<not> np_any (box_roi self img det) \<or> \<not> anchor_in_bounds img det
          \<or> isnan (anchor_depth self img det) \<or> anchor_depth self img det = Fin 0
          \<or> isinf (anchor_depth self img det)
          \<or> positive_samples (concat (box_roi self img det)) = []
          \<or> consensus (maximum_detection_threshold self) (concat (box_roi self img det))
               (mean (positive_samples (concat (box_roi self img det)))) = []"
  define X where "X = box_of info (anchor det)
                   (py_int (p_x (size2 (bbox det))), py_int (p_y (size2 (bbox det))))
                   (mean (positive_samples (concat (box_roi self img det))))
                   (consensus (maximum_detection_threshold self) (concat (box_roi self img det))
                      (mean (positive_samples (concat (box_roi self img det)))))"
  have "convert_bb_to_3d self img info det = (if P then None else Some X)"
    unfolding P_def X_def by (rule convert_bb_to_3d_eq)
  with assms have "\<not> P" and "b = X"
    by (simp_all split: if_splits)
  then show ?thesis
    unfolding P_def X_def by blast
qed

lemma size_z_nonneg:
  assumes "convert_bb_to_3d self img info det = Some b"
  shows "\<exists>s. snd (snd (size3 b)) = Fin s \<and> 0 \<le> s"
proof -
  let ?c = "consensus (maximum_detection_threshold self) (concat (box_roi self img det))
              (mean (positive_samples (concat (box_roi self img det))))"
  from convert_bb_to_3d_Some [OF assms]
  have ne: "?c \<noteq> []" and sz: "snd (snd (size3 b)) = Fin (Max (set ?c) - Min (set ?c))"
    by (simp_all add: box_of_def)
  from ne obtain a where a: "a \<in> set ?c" by (cases ?c) auto
  then have "Min (set ?c) \<le> a" "a \<le> Max (set ?c)" by simp_all
  then have "0 \<le> Max (set ?c) - Min (set ?c)" by linarith
  with sz show ?thesis by blast
qed

section \<open>Properties of the keypoint projection\<close>

lemma np_index_ok:
  "- int n \<le> i \<Longrightarrow> i < int n \<Longrightarrow> np_index n i = Inr (wrap_index n i)"
  by (simp add: np_index_def wrap_index_def)

lemma np_index_bad:
  "\<not> (- int n \<le> i \<and> i < int n) \<Longrightarrow> np_index n i = Inl IndexError"
  by (auto simp: np_index_def)

lemma np_take2_map:
  "np_take2 img (map f ps) (map g ps) =
     (if \<forall>p\<in>set ps. - int (rows img) \<le> f p \<and> f p < int (rows img)
                    \<and> - int (cols img) \<le> g p \<and> g p < int (cols img)
      then Inr (map (\<lambda>p. pixel img (wrap_index (rows img) (f p)) (wrap_index (cols img) (g p))) ps)
      else Inl IndexError)"
proof (induction ps)
  case Nil
  then show ?case by simp
next
  case (Cons p ps)
  show ?case
  proof (cases "- int (rows img) \<le> f p \<and> f p < int (rows img)")
    case False
    then show ?thesis by (auto simp: np_index_bad)
  next
    case r: True
    show ?thesis
    proof (cases "- int (cols img) \<le> g p \<and> g p < int (cols img)")
      case False
      with r show ?thesis by (auto simp: np_index_ok np_index_bad)
    next
      case True
      with r Cons show ?thesis by (simp add: np_index_ok)
    qed
  qed
qed

lemma generate_message_eq:
  "generate_message acc (zip (map h ps) ps) =
     acc @ map (\<lambda>p. \<lparr>kp3_point = h p, kp3_id = kp_id p, kp3_score = kp_score p\<rparr>)
             (filter (\<lambda>p. \<not> has_nan (h p)) ps)"
  by (induction ps arbitrary: acc) simp_all

lemma map2_same: "map2 f (map a xs) (map b xs) = map (\<lambda>x. f (a x) (b x)) xs"
  by (induction xs) simp_all

lemma zip3_same:
  "map (\<lambda>(xi, yi, zi). F xi yi zi) (zip (map a xs) (zip (map b xs) (map c xs)))
     = map (\<lambda>x. F (a x) (b x) (c x)) xs"
  by (induction xs) simp_all

lemma convert_keypoints_to_3d_eq:
  "convert_keypoints_to_3d self img info det =
     (if keypoints det = [] \<or> \<not> (\<forall>p\<in>set (keypoints det). kp_index_ok img info p)
      then Inl IndexError
      else Inr \<lparr>kp3_data = map (kp_message self img info)
                              (filter (\<lambda>p. \<not> has_nan (kp_position self img info p)) (keypoints det)),
                kp3_frame_id = []\<rparr>)"
proof (cases "keypoints det = []")
  case True
  then show ?thesis by (simp add: convert_keypoints_to_3d_def)
next
  case ne: False
  let ?ps = "keypoints det"
  have take: "np_take2 img
       (map (\<lambda>q. np_clip (snd q) 0 (int (height info) - 1))
          (map (\<lambda>p. (np_int16 (p_x (kp_point p)), np_int16 (p_y (kp_point p)))) ?ps))
       (map (\<lambda>q. np_clip (fst q) 0 (int (width info) - 1))
          (map (\<lambda>p. (np_int16 (p_x (kp_point p)), np_int16 (p_y (kp_point p)))) ?ps))
     = (if \<forall>p\<in>set ?ps. kp_index_ok img info p
        then Inr (map (kp_depth img info) ?ps) else Inl IndexError)"
    unfolding map_map o_def snd_conv fst_conv kp_u_def [symmetric] kp_v_def [symmetric]
    by (simp add: np_take2_map kp_index_ok_def kp_depth_def cong: map_cong)
  show ?thesis
  proof (cases "\<forall>p\<in>set ?ps. kp_index_ok img info p")
    case False
    with ne take show ?thesis
      by (simp add: convert_keypoints_to_3d_def Let_def)
  next
    case True
    have pts: "map (\<lambda>(xi, yi, zi).
              (fdiv xi (Fin (real_of_int (depth_image_units_divisor self))),
               fdiv yi (Fin (real_of_int (depth_image_units_divisor self))),
               fdiv zi (Fin (real_of_int (depth_image_units_divisor self)))))
          (zip (map2 (\<lambda>zi vi. fdiv (fmul zi (Fin (real_of_int vi - k info 2))) (Fin (k info 0)))
                  (map (kp_depth img info) ?ps) (map (kp_v info) ?ps))
               (zip (map2 (\<lambda>zi ui. fdiv (fmul zi (Fin (real_of_int ui - k info 5))) (Fin (k info 4)))
                        (map (kp_depth img info) ?ps) (map (kp_u info) ?ps))
                    (map (kp_depth img info) ?ps)))
        = map (kp_position self img info) ?ps"
      unfolding map2_same by (simp add: zip3_same kp_position_def Let_def)
    have "convert_keypoints_to_3d self img info det =
        Inr \<lparr>kp3_data = generate_message [] (zip (map (kp_position self img info) ?ps) ?ps),
             kp3_frame_id = []\<rparr>"
      using ne True take pts
      unfolding convert_keypoints_to_3d_def Let_def map_map o_def snd_conv fst_conv
        kp_u_def [symmetric] kp_v_def [symmetric]
      by simp
    with ne True show ?thesis
      by (simp add: generate_message_eq kp_message_def)
  qed
qed

lemma np_int16_signed16: "np_int16 r = signed16 (py_int r)"
  by (simp add: np_int16_def signed16_def int_word_sint)

lemma kp_index_ok_shape:
  assumes "0 < rows img" "height info \<le> rows img" "0 < cols img" "width info \<le> cols img"
  shows "kp_index_ok img info p"
  using assms by (auto simp: kp_index_ok_def kp_u_def kp_v_def np_clip_def min_def max_def)

lemma nan_depth_has_nan:
  "isnan (kp_depth img info p) \<Longrightarrow> has_nan (kp_position self img info p)"
  by (cases "kp_depth img info p") (simp_all add: kp_position_def has_nan_def Let_def)

text \<open>
  Claim C6. Whenever \<open>convert_keypoints_to_3d\<close> returns an array, its data is, in input
  order, the projection of exactly those keypoints whose 3D position has no NaN component,
  with the id and the score of the keypoint; a keypoint whose sampled depth is NaN has such a
  component and is left out. The function returns an array for every non-empty keypoint list
  when the shape declared by \<open>CameraInfo\<close> fits the image (otherwise the sampling raises
  \<open>IndexError\<close>, as it does for an empty list).
\<close>

theorem keypoints_3d_filtered:
  "(\<forall>out. convert_keypoints_to_3d self img info det = Inr out \<longrightarrow>
       kp3_data out = map (kp_message self img info)
                        (filter (\<lambda>p. \<not> has_nan (kp_position self img info p)) (keypoints det))
       \<and> map kp3_id (kp3_data out)
            = map kp_id (filter (\<lambda>p. \<not> has_nan (kp_position self img info p)) (keypoints det))
       \<and> map kp3_score (kp3_data out)
            = map kp_score (filter (\<lambda>p. \<not> has_nan (kp_position self img info p)) (keypoints det))
       \<and> (\<forall>m\<in>set (kp3_data out). \<not> has_nan (kp3_point m)))
   \<and> (\<forall>p. isnan (kp_depth img info p) \<longrightarrow> has_nan (kp_position self img info p))
   \<and> (keypoints det \<noteq> [] \<and> 0 < rows img \<and> height info \<le> rows img
         \<and> 0 < cols img \<and> width info \<le> cols img
       \<longrightarrow> (\<exists>out. convert_keypoints_to_3d self img info det = Inr out))"
proof (intro conjI allI impI)
  fix out assume out: "convert_keypoints_to_3d self img info det = Inr out"
  let ?ok = "\<lambda>p. \<not> has_nan (kp_position self img info p)"
  from out have ok: "\<not> (keypoints det = [] \<or> \<not> (\<forall>p\<in>set (keypoints det). kp_index_ok img info p))"
    unfolding convert_keypoints_to_3d_eq by (auto split: if_splits)
  with out have "out = \<lparr>kp3_data = map (kp_message self img info) (filter ?ok (keypoints det)),
                        kp3_frame_id = []\<rparr>"
    unfolding convert_keypoints_to_3d_eq by (simp split: if_splits)
  then show d: "kp3_data out = map (kp_message self img info) (filter ?ok (keypoints det))"
    by simp
  show "map kp3_id (kp3_data out) = map kp_id (filter ?ok (keypoints det))"
    unfolding d by (simp add: kp_message_def o_def)
  show "map kp3_score (kp3_data out) = map kp_score (filter ?ok (keypoints det))"
    unfolding d by (simp add: kp_message_def o_def)
  show "\<forall>m\<in>set (kp3_data out). \<not> has_nan (kp3_point m)"
    unfolding d by (auto simp: kp_message_def)
next
  fix p assume "isnan (kp_depth img info p)"
  then show "has_nan (kp_position self img info p)" by (rule nan_depth_has_nan)
next
  assume a: "keypoints det \<noteq> [] \<and> 0 < rows img \<and> height info \<le> rows img
         \<and> 0 < cols img \<and> width info \<le> cols img"
  then have "\<forall>p\<in>set (keypoints det). kp_index_ok img info p"
    using kp_index_ok_shape by blast
  with a show "\<exists>out. convert_keypoints_to_3d self img info det = Inr out"
    by (simp add: convert_keypoints_to_3d_eq)
qed

text \<open>
  Two keypoints on a frame whose sample at (1, 1) is NaN: only the second one is kept.
\<close>

theorem keypoints_3d_filtered_witness:
  "convert_keypoints_to_3d ex_node ex_nan ex_info
       (ex_detection 2 2 [ex_kp 5 1 1 (9 / 10), ex_kp 7 2 3 (8 / 10)])
     = Inr \<lparr>kp3_data = [\<lparr>kp3_point = (Fin (1 / 125), Fin (3 / 250), Fin 2), kp3_id = 7,
                          kp3_score = 8 / 10\<rparr>], kp3_frame_id = []\<rparr>
   \<and> isnan (kp_depth ex_nan ex_info (ex_kp 5 1 1 (9 / 10)))
   \<and> has_nan (kp_position ex_node ex_nan ex_info (ex_kp 5 1 1 (9 / 10)))
   \<and> map kp3_id [\<lparr>kp3_point = (Fin (1 / 125), Fin (3 / 250), Fin 2), kp3_id = 7,
                          kp3_score = 8 / 10\<rparr>]
       = map kp_id (filter (\<lambda>p. \<not> has_nan (kp_position ex_node ex_nan ex_info p))
                      [ex_kp 5 1 1 (9 / 10), ex_kp 7 2 3 (8 / 10)])"
proof -
  let ?d = "ex_detection 2 2 [ex_kp 5 1 1 (9 / 10), ex_kp 7 2 3 (8 / 10)]"
  let ?out = "\<lparr>kp3_data = [\<lparr>kp3_point = (Fin (1 / 125), Fin (3 / 250), Fin 2), kp3_id = 7,
                          kp3_score = 8 / 10\<rparr>], kp3_frame_id = []\<rparr>"
  have e: "convert_keypoints_to_3d ex_node ex_nan ex_info ?d = Inr ?out"
    by code_simp
  have n: "isnan (kp_depth ex_nan ex_info (ex_kp 5 1 1 (9 / 10)))"
    by code_simp
  have k: "keypoints ?d = [ex_kp 5 1 1 (9 / 10), ex_kp 7 2 3 (8 / 10)]"
    by (simp add: ex_detection_def)
  note t = keypoints_3d_filtered [of ex_node ex_nan ex_info ?d]
  from t e have "map kp3_id (kp3_data ?out)
       = map kp_id (filter (\<lambda>p. \<not> has_nan (kp_position ex_node ex_nan ex_info p)) (keypoints ?d))"
    by blast
  moreover from t n have "has_nan (kp_position ex_node ex_nan ex_info (ex_kp 5 1 1 (9 / 10)))"
    by blast
  ultimately show ?thesis using e n unfolding k by simp
qed

lemma signed16_range: "- 32768 \<le> signed16 i \<and> signed16 i \<le> 32767"
  unfolding signed16_def
  using pos_mod_sign [of 65536 "i + 32768"] pos_mod_bound [of 65536 "i + 32768"]
  by linarith

lemma signed16_cong: "(signed16 i - i) mod 65536 = 0"
proof -
  have "signed16 i - i = (i + 32768) mod 65536 - (i + 32768)"
    by (simp add: signed16_def)
  also have "\<dots> = - (65536 * ((i + 32768) div 65536))"
    by (simp add: minus_mult_div_eq_mod [symmetric])
  finally show ?thesis by simp
qed

lemma signed16_id: "signed16 i = i \<longleftrightarrow> - 32768 \<le> i \<and> i \<le> 32767"
proof
  assume "signed16 i = i"
  with signed16_range [of i] show "- 32768 \<le> i \<and> i \<le> 32767" by simp
next
  assume "- 32768 \<le> i \<and> i \<le> 32767"
  then have "(i + 32768) mod 65536 = i + 32768"
    by (intro mod_pos_pos_trivial) simp_all
  then show "signed16 i = i" by (simp add: signed16_def)
qed

text \<open>
  Claim C10. The keypoint coordinates are cast to 16-bit signed integers before they are
  clipped: the row and the column that are sampled are the clips of the truncated coordinates
  reduced modulo \<open>2^16\<close> into \<open>-32768 .. 32767\<close>, which differ from the coordinates exactly
  outside that range. So \<open>x = 40000\<close> is taken as \<open>-25536\<close> and clipped to column 0. The
  cast is modelled as the two's-complement wrap-around that NumPy performs for these values.
\<close>

theorem keypoint_pixel_int16:
  "kp_v info p = np_clip (signed16 (py_int (p_x (kp_point p)))) 0 (int (width info) - 1)
   \<and> kp_u info p = np_clip (signed16 (py_int (p_y (kp_point p)))) 0 (int (height info) - 1)
   \<and> - 32768 \<le> signed16 i \<and> signed16 i \<le> 32767 \<and> (signed16 i - i) mod 65536 = 0
   \<and> (signed16 i = i \<longleftrightarrow> - 32768 \<le> i \<and> i \<le> 32767)
   \<and> np_int16 40000 = - 25536
   \<and> (0 < width info \<and> p_x (kp_point p) = 40000 \<longrightarrow> kp_v info p = 0)
   \<and> (\<forall>out. convert_keypoints_to_3d self img info det = Inr out \<longrightarrow>
         kp3_data out = map (kp_message self img info)
                          (filter (\<lambda>p. \<not> has_nan (kp_position self img info p)) (keypoints det)))"
proof -
  have w: "np_int16 40000 = - 25536"
    by (simp add: np_int16_signed16 signed16_def py_int_def)
  have c: "0 < width info \<and> p_x (kp_point p) = 40000 \<longrightarrow> kp_v info p = 0"
    by (auto simp: kp_v_def w np_clip_def)
  have r: "\<forall>out. convert_keypoints_to_3d self img info det = Inr out \<longrightarrow>
         kp3_data out = map (kp_message self img info)
                          (filter (\<lambda>p. \<not> has_nan (kp_position self img info p)) (keypoints det))"
    unfolding convert_keypoints_to_3d_eq by (auto split: if_splits)
  show ?thesis
    using w c r signed16_range [of i] signed16_cong [of i] signed16_id [of i]
    by (simp add: kp_v_def kp_u_def np_int16_signed16)
qed

text \<open>
  A keypoint at \<open>x = 40000\<close> on the 4 x 4 ramp: the sample is the one of column 0.
\<close>

theorem keypoint_pixel_int16_witness:
  "0 < width ex_info \<and> p_x (kp_point (ex_kp 7 40000 1 (8 / 10))) = 40000
   \<and> kp_v ex_info (ex_kp 7 40000 1 (8 / 10)) = 0
   \<and> kp_depth ex_ramp ex_info (ex_kp 7 40000 1 (8 / 10)) = pixel ex_ramp 1 0
   \<and> convert_keypoints_to_3d ex_node ex_ramp ex_info (ex_detection 2 2 [ex_kp 7 40000 1 (8 / 10)])
       = Inr \<lparr>kp3_data = [\<lparr>kp3_point = (Fin 0, Fin (1 / 100), Fin 5), kp3_id = 7,
                            kp3_score = 8 / 10\<rparr>], kp3_frame_id = []\<rparr>"
proof -
  have h: "0 < width ex_info \<and> p_x (kp_point (ex_kp 7 40000 1 (8 / 10))) = 40000"
    by (simp add: ex_info_def ex_kp_def)
  from keypoint_pixel_int16 [of ex_info "ex_kp 7 40000 1 (8 / 10)"] h
  have v: "kp_v ex_info (ex_kp 7 40000 1 (8 / 10)) = 0" by blast
  have d: "kp_depth ex_ramp ex_info (ex_kp 7 40000 1 (8 / 10)) = pixel ex_ramp 1 0"
    by code_simp
  have e: "convert_keypoints_to_3d ex_node ex_ramp ex_info (ex_detection 2 2 [ex_kp 7 40000 1 (8 / 10)])
       = Inr \<lparr>kp3_data = [\<lparr>kp3_point = (Fin 0, Fin (1 / 100), Fin 5), kp3_id = 7,
                            kp3_score = 8 / 10\<rparr>], kp3_frame_id = []\<rparr>"
    by code_simp
  from h v d e show ?thesis by blast
qed

section \<open>Properties of the pipeline\<close>

lemma process_loop_Inr:
  "process_loop self img info tr acc ds = Inr out \<Longrightarrow>
     \<exists>news. out = acc @ news \<and>
       list_all2 (carries_box self img info tr) news
         (filter (\<lambda>d. convert_bb_to_3d self img info d \<noteq> None) ds)"
proof (induction ds arbitrary: acc)
  case Nil
  then show ?case by simp
next
  case (Cons d ds)
  show ?case
  proof (cases "convert_bb_to_3d self img info d")
    case None
    with Cons show ?thesis by simp
  next
    case (Some b)
    let ?b' = "(transform_3d_box b (fst tr) (snd tr))\<lparr>frame_id := target_frame self\<rparr>"
    show ?thesis
    proof (cases "keypoints d = []")
      case True
      with Some Cons.prems
      have "process_loop self img info tr (acc @ [d\<lparr>bbox3d := ?b'\<rparr>]) ds = Inr out"
        by (simp add: Let_def)
      from Cons.IH [OF this] obtain news where
        n: "out = (acc @ [d\<lparr>bbox3d := ?b'\<rparr>]) @ news"
           "list_all2 (carries_box self img info tr) news
              (filter (\<lambda>d. convert_bb_to_3d self img info d \<noteq> None) ds)"
        by blast
      have "carries_box self img info tr (d\<lparr>bbox3d := ?b'\<rparr>) d"
        by (simp add: carries_box_def Some)
      with n Some show ?thesis by simp
    next
      case False
      with Some Cons.prems obtain ks where
        ks: "convert_keypoints_to_3d self img info d = Inr ks"
        by (cases "convert_keypoints_to_3d self img info d") (simp_all add: Let_def)
      let ?k' = "(transform_3d_keypoints ks (fst tr) (snd tr))\<lparr>kp3_frame_id := target_frame self\<rparr>"
      from False Some Cons.prems ks
      have "process_loop self img info tr (acc @ [d\<lparr>bbox3d := ?b', keypoints3d := ?k'\<rparr>]) ds = Inr out"
        by (simp add: Let_def)
      from Cons.IH [OF this] obtain news where
        n: "out = (acc @ [d\<lparr>bbox3d := ?b', keypoints3d := ?k'\<rparr>]) @ news"
           "list_all2 (carries_box self img info tr) news
              (filter (\<lambda>d. convert_bb_to_3d self img info d \<noteq> None) ds)"
        by blast
      have "carries_box self img info tr (d\<lparr>bbox3d := ?b', keypoints3d := ?k'\<rparr>) d"
        by (simp add: carries_box_def Some)
      with n Some show ?thesis by simp
    qed
  qed
qed

lemma process_loop_returns:
  assumes "0 < rows img" "height info \<le> rows img" "0 < cols img" "width info \<le> cols img"
  shows "\<exists>out. process_loop self img info tr acc ds = Inr out"
proof (induction ds arbitrary: acc)
  case Nil
  then show ?case by simp
next
  case (Cons d ds)
  show ?case
  proof (cases "convert_bb_to_3d self img info d")
    case None
    with Cons show ?thesis by simp
  next
    case (Some b)
    show ?thesis
    proof (cases "keypoints d = []")
      case True
      with Some Cons show ?thesis by (simp add: Let_def)
    next
      case False
      have "\<forall>p\<in>set (keypoints d). kp_index_ok img info p"
        using kp_index_ok_shape [OF assms] by blast
      with False obtain ks where "convert_keypoints_to_3d self img info d = Inr ks"
        by (simp add: convert_keypoints_to_3d_eq)
      with False Some Cons show ?thesis by (simp add: Let_def)
    qed
  qed
qed

text \<open>
  What \<open>process_detections\<close> returns. The list is empty for an empty input and when the
  frame lookup fails; the failure is written to the log and nothing is raised. When the lookup
  succeeds, every list it returns is, in input order, the detections for which
  \<open>convert_bb_to_3d\<close> yields a box, each carrying that box transformed into the target frame;
  a detection without a box does not occur. A list is returned whenever the shape declared by
  \<open>CameraInfo\<close> fits the image.
\<close>

theorem process_detections_subsequence:
  "process_detections self tf img info [] = (Inr [], [])
   \<and> (tf (target_frame self) (info_frame_id info) = Inl ex \<longrightarrow>
        process_detections self tf img info dets
          = (Inr [], if dets = [] then [] else [''Could not transform: '' @ ex]))
   \<and> (tf (target_frame self) (info_frame_id info) = Inr t \<longrightarrow>
        (\<forall>out. fst (process_detections self tf img info dets) = Inr out \<longrightarrow>
           list_all2 (carries_box self img info (transform_of t)) out
             (filter (\<lambda>d. convert_bb_to_3d self img info d \<noteq> None) dets))
        \<and> (0 < rows img \<and> height info \<le> rows img \<and> 0 < cols img \<and> width info \<le> cols img
             \<longrightarrow> (\<exists>out. fst (process_detections self tf img info dets) = Inr out)))"
proof (intro conjI impI allI)
  show "process_detections self tf img info [] = (Inr [], [])"
    by (simp add: process_detections_def)
next
  assume "tf (target_frame self) (info_frame_id info) = Inl ex"
  then show "process_detections self tf img info dets
          = (Inr [], if dets = [] then [] else [''Could not transform: '' @ ex])"
    by (simp add: process_detections_def get_transform_def)
next
  fix out
  assume t: "tf (target_frame self) (info_frame_id info) = Inr t"
    and out: "fst (process_detections self tf img info dets) = Inr out"
  show "list_all2 (carries_box self img info (transform_of t)) out
             (filter (\<lambda>d. convert_bb_to_3d self img info d \<noteq> None) dets)"
  proof (cases "dets = []")
    case True
    with out show ?thesis by (simp add: process_detections_def)
  next
    case False
    with t out have "process_loop self img info (transform_of t) [] dets = Inr out"
      by (simp add: process_detections_def get_transform_def transform_of_def)
    from process_loop_Inr [OF this] show ?thesis by simp
  qed
next
  assume t: "tf (target_frame self) (info_frame_id info) = Inr t"
    and sh: "0 < rows img \<and> height info \<le> rows img \<and> 0 < cols img \<and> width info \<le> cols img"
  show "\<exists>out. fst (process_detections self tf img info dets) = Inr out"
  proof (cases "dets = []")
    case True
    then show ?thesis by (simp add: process_detections_def)
  next
    case False
    from sh obtain out where "process_loop self img info (transform_of t) [] dets = Inr out"
      using process_loop_returns [of img info self "transform_of t" "[]" dets] by blast
    with False t show ?thesis
      by (simp add: process_detections_def get_transform_def transform_of_def)
  qed
qed

text \<open>
  Three detections, the second with its anchor outside the frame: a failing lookup gives the
  empty list and one log line, the identity transform gives the first and the third.
\<close>

theorem process_detections_subsequence_witness:
  "ex_tf_fail (target_frame ex_node) (info_frame_id ex_info) = Inl ''frame does not exist''
   \<and> process_detections ex_node ex_tf_fail ex_image ex_info
         [ex_detection 2 2 [], ex_detection 2 2 [ex_kp 5 4 2 (9 / 10)], ex_detection 1 2 []]
       = (Inr [], [''Could not transform: frame does not exist''])
   \<and> 0 < rows ex_image \<and> height ex_info \<le> rows ex_image
   \<and> 0 < cols ex_image \<and> width ex_info \<le> cols ex_image
   \<and> fst (process_detections ex_node ex_tf_id ex_image ex_info
         [ex_detection 2 2 [], ex_detection 2 2 [ex_kp 5 4 2 (9 / 10)], ex_detection 1 2 []])
       = Inr [(ex_detection 2 2 [])
                \<lparr>bbox3d := \<lparr>center = (Fin (1 / 125), Fin (1 / 125), Fin 2),
                             size3 = (Fin (1 / 125), Fin (1 / 125), Fin 0),
                             frame_id = ''base_link''\<rparr>\<rparr>,
              (ex_detection 1 2 [])
                \<lparr>bbox3d := \<lparr>center = (Fin (1 / 250), Fin (1 / 125), Fin 2),
                             size3 = (Fin (1 / 125), Fin (1 / 125), Fin 0),
                             frame_id = ''base_link''\<rparr>\<rparr>]
   \<and> filter (\<lambda>d. convert_bb_to_3d ex_node ex_image ex_info d \<noteq> None)
         [ex_detection 2 2 [], ex_detection 2 2 [ex_kp 5 4 2 (9 / 10)], ex_detection 1 2 []]
       = [ex_detection 2 2 [], ex_detection 1 2 []]
   \<and> list_all2 (carries_box ex_node ex_image ex_info
                  ((Fin 0, Fin 0, Fin 0), (Fin 1, Fin 0, Fin 0, Fin 0)))
         [(ex_detection 2 2 [])
                \<lparr>bbox3d := \<lparr>center = (Fin (1 / 125), Fin (1 / 125), Fin 2),
                             size3 = (Fin (1 / 125), Fin (1 / 125), Fin 0),
                             frame_id = ''base_link''\<rparr>\<rparr>,
              (ex_detection 1 2 [])
                \<lparr>bbox3d := \<lparr>center = (Fin (1 / 250), Fin (1 / 125), Fin 2),
                             size3 = (Fin (1 / 125), Fin (1 / 125), Fin 0),
                             frame_id = ''base_link''\<rparr>\<rparr>]
         [ex_detection 2 2 [], ex_detection 1 2 []]"
proof -
  let ?dets = "[ex_detection 2 2 [], ex_detection 2 2 [ex_kp 5 4 2 (9 / 10)], ex_detection 1 2 []]"
  let ?out = "[(ex_detection 2 2 [])
                \<lparr>bbox3d := \<lparr>center = (Fin (1 / 125), Fin (1 / 125), Fin 2),
                             size3 = (Fin (1 / 125), Fin (1 / 125), Fin 0),
                             frame_id = ''base_link''\<rparr>\<rparr>,
              (ex_detection 1 2 [])
                \<lparr>bbox3d := \<lparr>center = (Fin (1 / 250), Fin (1 / 125), Fin 2),
                             size3 = (Fin (1 / 125), Fin (1 / 125), Fin 0),
                             frame_id = ''base_link''\<rparr>\<rparr>]"
  let ?t = "\<lparr>translation_x = Fin 0, translation_y = Fin 0, translation_z = Fin 0,
          rotation_x = Fin 0, rotation_y = Fin 0, rotation_z = Fin 0, rotation_w = Fin 1\<rparr>"
  have f: "ex_tf_fail (target_frame ex_node) (info_frame_id ex_info) = Inl ''frame does not exist''"
    by (simp add: ex_tf_fail_def)
  have i: "ex_tf_id (target_frame ex_node) (info_frame_id ex_info) = Inr ?t"
    by (simp add: ex_tf_id_def)
  have sh: "0 < rows ex_image \<and> height ex_info \<le> rows ex_image
      \<and> 0 < cols ex_image \<and> width ex_info \<le> cols ex_image"
    by (simp add: ex_image_def ex_info_def)
  have e: "fst (process_detections ex_node ex_tf_id ex_image ex_info ?dets) = Inr ?out"
    by code_simp
  have fl: "filter (\<lambda>d. convert_bb_to_3d ex_node ex_image ex_info d \<noteq> None) ?dets
       = [ex_detection 2 2 [], ex_detection 1 2 []]"
    by code_simp
  have tr: "transform_of ?t = ((Fin 0, Fin 0, Fin 0), (Fin 1, Fin 0, Fin 0, Fin 0))"
    by (simp add: transform_of_def)
  note sub = process_detections_subsequence [of ex_node ex_tf_fail ex_image ex_info
      "''frame does not exist''" ?dets]
  from sub f have r1: "process_detections ex_node ex_tf_fail ex_image ex_info ?dets
       = (Inr [], [''Could not transform: frame does not exist''])"
    by auto
  from process_detections_subsequence [of ex_node ex_tf_id ex_image ex_info _ ?dets ?t] i e
  have "list_all2 (carries_box ex_node ex_image ex_info (transform_of ?t)) ?out
          (filter (\<lambda>d. convert_bb_to_3d ex_node ex_image ex_info d \<noteq> None) ?dets)"
    by blast
  then have r2: "list_all2 (carries_box ex_node ex_image ex_info
                  ((Fin 0, Fin 0, Fin 0), (Fin 1, Fin 0, Fin 0, Fin 0))) ?out
         [ex_detection 2 2 [], ex_detection 1 2 []]"
    unfolding fl tr .
  from f r1 sh e fl r2 show ?thesis by blast
qed

text \<open>
  Claim C2 says that for every frame the list returned by \<open>process_detections\<close> is the
  input-order subsequence of the detections with a box. \<open>process_detections_subsequence\<close>
  shows this for every list that is returned. \<open>convert_keypoints_to_3d\<close> clips the keypoints
  to the shape that \<open>CameraInfo\<close> declares, not to the shape of the image as
  \<open>convert_bb_to_3d\<close> does: with 8 x 8 declared over the 4 x 4 frame and a keypoint at
  (6, 6), both detections have a box, the sampling raises \<open>IndexError\<close>, nothing catches it,
  and no list is returned.
\<close>

theorem process_detections_index_error:
  "convert_bb_to_3d ex_node ex_image ex_info8 (ex_detection 2 2 [ex_kp 7 6 6 (9 / 10)])
     = Some \<lparr>center = (Fin (1 / 125), Fin (1 / 125), Fin 2),
             size3 = (Fin (1 / 125), Fin (1 / 125), Fin 0), frame_id = []\<rparr>
   \<and> convert_bb_to_3d ex_node ex_image ex_info8 (ex_detection 1 2 [])
     = Some \<lparr>center = (Fin (1 / 250), Fin (1 / 125), Fin 2),
             size3 = (Fin (1 / 125), Fin (1 / 125), Fin 0), frame_id = []\<rparr>
   \<and> convert_keypoints_to_3d ex_node ex_image ex_info8 (ex_detection 2 2 [ex_kp 7 6 6 (9 / 10)])
     = Inl IndexError
   \<and> process_detections ex_node ex_tf_id ex_image ex_info8
        [ex_detection 2 2 [ex_kp 7 6 6 (9 / 10)], ex_detection 1 2 []]
     = (Inl IndexError, [])"
  by code_simp

section \<open>Properties of the crop and of the anchor\<close>

lemma upt_slice_eq:
  assumes "0 \<le> lo" and "hi < int n" and "0 \<le> hi \<or> n = 0"
  shows "[slice_bound n lo ..< slice_bound n hi] = [nat lo ..< nat hi]"
proof (cases "lo \<le> int n")
  case True
  with assms show ?thesis by (auto simp: slice_bound_def min_def max_def)
next
  case False
  with assms have "slice_bound n hi \<le> slice_bound n lo" "nat hi \<le> nat lo"
    by (auto simp: slice_bound_def min_def max_def)
  then show ?thesis by simp
qed

lemma crop_roi_rect:
  assumes "0 \<le> center_x + size_x div 2" and "0 \<le> center_y + size_y div 2"
  shows "crop_roi self img center_x center_y size_x size_y =
     map (\<lambda>v. map (\<lambda>u. fdiv (pixel img v u) (Fin (real_of_int (depth_image_units_divisor self))))
                  [nat (u_min center_x size_x) ..< nat (u_max img center_x size_x)])
         [nat (v_min center_y size_y) ..< nat (v_max img center_y size_y)]"
proof -
  have u: "[slice_bound (cols img) (u_min center_x size_x) ..<
            slice_bound (cols img) (u_max img center_x size_x)]
         = [nat (u_min center_x size_x) ..< nat (u_max img center_x size_x)]"
    using assms(1) by (intro upt_slice_eq) (auto simp: u_min_def u_max_def min_def)
  have v: "[slice_bound (rows img) (v_min center_y size_y) ..<
            slice_bound (rows img) (v_max img center_y size_y)]
         = [nat (v_min center_y size_y) ..< nat (v_max img center_y size_y)]"
    using assms(2) by (intro upt_slice_eq) (auto simp: v_min_def v_max_def min_def)
  show ?thesis
    by (simp add: crop_roi_def np_slice2_def u v o_def)
qed

lemma crop_roi_inside:
  "v \<in> set [nat (v_min center_y size_y) ..< nat (v_max img center_y size_y)] \<Longrightarrow> v < rows img"
  "u \<in> set [nat (u_min center_x size_x) ..< nat (u_max img center_x size_x)] \<Longrightarrow> u < cols img"
  by (auto simp: v_max_def u_max_def min_def split: if_splits)

text \<open>
  Claim C5 says that the region is the part of the image inside the rectangle from
  \<open>u_min = max(cx - w/2, 0)\<close> to \<open>u_max = min(cx + w/2, width - 1)\<close> (and likewise for the
  rows), divided by the units divisor. \<open>crop_roi_rect\<close> shows this (the bounds \<open>u_max\<close> and
  \<open>v_max\<close> excluded, as in a Python slice) whenever \<open>cx + w/2\<close> and \<open>cy + h/2\<close> are not
  negative. For a box left of the image the slice takes the negative \<open>u_max\<close> as counted from
  the right edge: on the 4 x 4 ramp a box with centre \<open>x = -3\<close> and width 2 has
  \<open>u_min = 0\<close>, \<open>u_max = -2\<close>, and the region is columns 0 and 1 instead of being empty.
\<close>

theorem crop_roi_negative_bound:
  "u_min (- 3) 2 = 0 \<and> u_max ex_ramp (- 3) 2 = - 2
   \<and> v_min 2 2 = 1 \<and> v_max ex_ramp 2 2 = 3
   \<and> crop_roi ex_node ex_ramp (- 3) 2 2 2 = [[Fin 5, Fin 6], [Fin 9, Fin 10]]
   \<and> [[Fin 5, Fin 6], [Fin 9, Fin 10]]
       = map (\<lambda>v. map (\<lambda>u. fdiv (pixel ex_ramp v u) (Fin 1000)) [0 ..< 2]) [1 ..< 3]"
  by code_simp

lemma find_kp_snoc:
  "find_kp i (kps @ [p]) = (if kp_id p = i then Some p else find_kp i kps)"
  by (simp add: find_kp_def)

lemma find_kp_Nil: "find_kp i [] = None"
  by (simp add: find_kp_def)

lemma find_kp_Some: "find_kp i kps = Some p \<Longrightarrow> p \<in> set kps \<and> kp_id p = i"
proof (induction kps rule: rev_induct)
  case Nil
  then show ?case by (simp add: find_kp_Nil)
next
  case (snoc x xs)
  then show ?case by (auto simp: find_kp_snoc split: if_splits)
qed

lemma get_keypoints_snoc: "get_keypoints (kps @ [p]) = kp_step (get_keypoints kps) p"
  by (simp add: get_keypoints_def)

lemma get_keypoints_eq:
  "get_keypoints kps =
     \<lparr>kp5 = slot 5 kps, kp6 = slot 6 kps, kp11 = slot 11 kps, kp12 = slot 12 kps,
      up_detected = (find_kp 5 kps \<noteq> None \<or> find_kp 6 kps \<noteq> None),
      down_detected = (find_kp 11 kps \<noteq> None \<or> find_kp 12 kps \<noteq> None)\<rparr>"
proof (induction kps rule: rev_induct)
  case Nil
  then show ?case by (simp add: get_keypoints_def kp_init_def slot_def find_kp_Nil)
next
  case (snoc p kps)
  show ?case
    unfolding get_keypoints_snoc snoc.IH
    by (simp add: kp_step_def slot_def find_kp_snoc)
qed

lemma candidate_None_iff:
  "candidate i j kps = None \<longleftrightarrow> find_kp i kps = None \<and> find_kp j kps = None"
  by (simp add: candidate_def split: option.splits)

lemma better_slot:
  assumes "\<forall>p. find_kp i kps = Some p \<longrightarrow> 0 < kp_score p"
    and "\<forall>p. find_kp j kps = Some p \<longrightarrow> 0 < kp_score p"
    and "candidate i j kps = Some u"
  shows "better (slot i kps) (slot j kps) = u"
proof (cases "find_kp i kps")
  case None
  with assms show ?thesis
    by (cases "find_kp j kps")
       (simp_all add: candidate_def slot_def better_def KeyPoint2D_default_def)
next
  case (Some a)
  with assms show ?thesis
    by (cases "find_kp j kps")
       (simp_all add: candidate_def slot_def better_def KeyPoint2D_default_def)
qed

lemma py_int_of_int: "py_int (real_of_int n) = n"
  by (simp add: py_int_def)

lemma resolve_anchor_positive:
  assumes pos: "\<forall>p\<in>set kps. kp_id p \<in> {5, 6, 11, 12} \<longrightarrow> 0 < kp_score p"
  shows "resolve_anchor c kps = anchor_spec c kps"
proof -
  have p: "\<forall>p. find_kp i kps = Some p \<longrightarrow> 0 < kp_score p" if "i \<in> {5, 6, 11, 12}" for i
    using pos that find_kp_Some [of i kps] by blast
  have up: "better (slot 5 kps) (slot 6 kps) = u" if "candidate 5 6 kps = Some u" for u
    using that p [of 5] p [of 6] by (intro better_slot) simp_all
  have down: "better (slot 11 kps) (slot 12 kps) = d" if "candidate 11 12 kps = Some d" for d
    using that p [of 11] p [of 12] by (intro better_slot) simp_all
  have ud: "(find_kp 5 kps \<noteq> None \<or> find_kp 6 kps \<noteq> None) \<longleftrightarrow> candidate 5 6 kps \<noteq> None"
    and dd: "(find_kp 11 kps \<noteq> None \<or> find_kp 12 kps \<noteq> None) \<longleftrightarrow> candidate 11 12 kps \<noteq> None"
    by (simp_all add: candidate_None_iff)
  show ?thesis
  proof (cases "candidate 5 6 kps")
    case None
    note u = this
    show ?thesis
    proof (cases "candidate 11 12 kps")
      case None
      with u show ?thesis
        unfolding resolve_anchor_def get_keypoints_eq ud dd
        by (cases c) (simp add: anchor_spec_def Let_def py_int_of_int)
    next
      case (Some d)
      with u down [OF Some] show ?thesis
        unfolding resolve_anchor_def get_keypoints_eq ud dd
        by (simp add: anchor_spec_def Let_def)
    qed
  next
    case (Some u)
    note u = this
    show ?thesis
    proof (cases "candidate 11 12 kps")
      case None
      with u up [OF u] show ?thesis
        unfolding resolve_anchor_def get_keypoints_eq ud dd
        by (simp add: anchor_spec_def Let_def)
    next
      case (Some d)
      with u up [OF u] down [OF Some] show ?thesis
        unfolding resolve_anchor_def get_keypoints_eq ud dd
        by (simp add: anchor_spec_def Let_def midpoint2_def)
    qed
  qed
qed

lemma anchor_scenario:
  "resolve_anchor c [ex_kp 5 50 60 (9 / 10), ex_kp 6 52 61 (3 / 10)] = (50, 60)"
  by (simp add: resolve_anchor_positive anchor_spec_def candidate_def find_kp_def
      ex_kp_def py_int_def)

text \<open>
  Claim C3 is \<open>anchor_spec\<close>: the higher-scored keypoint of the ids 5 and 6 and of the ids
  11 and 12, the midpoint if both sides are present, the single keypoint if one side is, the
  centre of the box otherwise. \<open>resolve_anchor_positive\<close> shows that the code computes it
  when the keypoints with these ids have positive scores. A keypoint that is absent stays a
  default message with score 0 at pixel (0, 0) and still takes part in the comparison: for a
  detection whose only keypoint is id 5 with score 0 at (50, 60) the anchor is (0, 0), not
  (50, 60).
\<close>

theorem anchor_default_keypoint_wins:
  "resolve_anchor (100, 100) [ex_kp 5 50 60 0] = (0, 0)
   \<and> anchor_spec (100, 100) [ex_kp 5 50 60 0] = (50, 60)
   \<and> anchor (ex_detection 100 100 [ex_kp 5 50 60 0]) = (0, 0)"
  by code_simp

section \<open>Properties of the sizes of the output\<close>

lemma size_z_fle:
  assumes "convert_bb_to_3d self img info det = Some b"
  shows "fle (Fin 0) (snd (snd (size3 b)))"
  using size_z_nonneg [OF assms] by auto

lemma transform_3d_box_sizes:
  "c \<in> {fst (size3 (transform_3d_box bx t q)),
        fst (snd (size3 (transform_3d_box bx t q))),
        snd (snd (size3 (transform_3d_box bx t q)))} \<Longrightarrow> fle (Fin 0) c \<or> isnan c"
proof -
  obtain s0 s1 s2 where s: "qv_mult q (size3 bx) = (s0, s1, s2)"
    by (cases "qv_mult q (size3 bx)")
  then have "size3 (transform_3d_box bx t q) = (fabs s0, fabs s1, fabs s2)"
    by (simp add: transform_3d_box_def Let_def)
  moreover assume "c \<in> {fst (size3 (transform_3d_box bx t q)),
        fst (snd (size3 (transform_3d_box bx t q))),
        snd (snd (size3 (transform_3d_box bx t q)))}"
  ultimately show ?thesis
    using fabs_nonneg_or_nan by auto
qed

lemma carries_box_sizes:
  assumes "carries_box self img info tr d' d"
    and "c \<in> {fst (size3 (bbox3d d')), fst (snd (size3 (bbox3d d'))), snd (snd (size3 (bbox3d d')))}"
  shows "fle (Fin 0) c \<or> isnan c"
proof -
  from assms(1) obtain b where
    "d' = d\<lparr>bbox3d := (transform_3d_box b (fst tr) (snd tr))\<lparr>frame_id := target_frame self\<rparr>,
           keypoints3d := keypoints3d d'\<rparr>"
    by (auto simp: carries_box_def split: option.splits)
  then have "bbox3d d' = (transform_3d_box b (fst tr) (snd tr))\<lparr>frame_id := target_frame self\<rparr>"
    by (metis Detection.select_convs(3) Detection.surjective Detection.update_convs(3)
        Detection.update_convs(4))
  then have "size3 (bbox3d d') = size3 (transform_3d_box b (fst tr) (snd tr))"
    by simp
  with assms(2) show ?thesis
    using transform_3d_box_sizes [of c b "fst tr" "snd tr"] by simp
qed

lemma list_all2_setD:
  "list_all2 R xs ys \<Longrightarrow> x \<in> set xs \<Longrightarrow> \<exists>y. R x y"
  by (induction rule: list_all2_induct) auto

text \<open>
  Claim C9, as amended. \<open>size.z\<close> of a box returned by \<open>convert_bb_to_3d\<close> is a maximum
  minus a minimum and is not negative. \<open>transform_3d_box\<close> rotates the size vector and takes
  the absolute value of each component, so for every input box, quaternion and translation
  each component of the transformed size is not negative or is NaN; the same holds for the
  box of every detection in a list returned by \<open>process_detections\<close>.
\<close>

theorem output_sizes_nonneg_or_nan:
  "(convert_bb_to_3d self img info det = Some b \<longrightarrow> fle (Fin 0) (snd (snd (size3 b))))
   \<and> (\<forall>c \<in> {fst (size3 (transform_3d_box bx t q)),
              fst (snd (size3 (transform_3d_box bx t q))),
              snd (snd (size3 (transform_3d_box bx t q)))}. fle (Fin 0) c \<or> isnan c)
   \<and> (\<forall>out. fst (process_detections self tf img info dets) = Inr out \<longrightarrow>
         (\<forall>d \<in> set out.
            \<forall>c \<in> {fst (size3 (bbox3d d)), fst (snd (size3 (bbox3d d))),
                   snd (snd (size3 (bbox3d d)))}. fle (Fin 0) c \<or> isnan c))"
proof (intro conjI impI allI ballI)
  assume "convert_bb_to_3d self img info det = Some b"
  then show "fle (Fin 0) (snd (snd (size3 b)))" by (rule size_z_fle)
next
  fix c assume "c \<in> {fst (size3 (transform_3d_box bx t q)),
              fst (snd (size3 (transform_3d_box bx t q))),
              snd (snd (size3 (transform_3d_box bx t q)))}"
  then show "fle (Fin 0) c \<or> isnan c" by (rule transform_3d_box_sizes)
next
  fix out d c
  assume out: "fst (process_detections self tf img info dets) = Inr out"
    and d: "d \<in> set out"
    and c: "c \<in> {fst (size3 (bbox3d d)), fst (snd (size3 (bbox3d d))),
                   snd (snd (size3 (bbox3d d)))}"
  show "fle (Fin 0) c \<or> isnan c"
  proof (cases "dets = []")
    case True
    with out d show ?thesis by (simp add: process_detections_def)
  next
    case False
    show ?thesis
    proof (cases "tf (target_frame self) (info_frame_id info)")
      case (Inl ex)
      with False out d show ?thesis
        by (simp add: process_detections_def get_transform_def)
    next
      case (Inr tr)
      with False out
      have "process_loop self img info (transform_of tr) [] dets = Inr out"
        by (simp add: process_detections_def get_transform_def transform_of_def)
      from process_loop_Inr [OF this]
      have "list_all2 (carries_box self img info (transform_of tr)) out
              (filter (\<lambda>d. convert_bb_to_3d self img info d \<noteq> None) dets)"
        by simp
      from list_all2_setD [OF this d] obtain d0 where
        "carries_box self img info (transform_of tr) d d0" by blast
      from carries_box_sizes [OF this c] show ?thesis .
    qed
  qed
qed

text \<open>
  The box of the 4 x 4 frame of constant depth, a box of size (1, 2, 3) under the identity
  transform, and the list returned for two detections of which the first has a box.
\<close>

theorem output_sizes_nonneg_or_nan_witness:
  "convert_bb_to_3d ex_node ex_image ex_info (ex_detection 2 2 []) =
     Some \<lparr>center = (Fin (1 / 125), Fin (1 / 125), Fin 2),
           size3 = (Fin (1 / 125), Fin (1 / 125), Fin 0), frame_id = []\<rparr>
   \<and> fle (Fin 0) (snd (snd (size3 \<lparr>center = (Fin (1 / 125), Fin (1 / 125), Fin 2),
           size3 = (Fin (1 / 125), Fin (1 / 125), Fin 0), frame_id = []\<rparr>)))
   \<and> size3 (transform_3d_box
        \<lparr>center = (Fin 1, Fin 2, Fin 3), size3 = (Fin 1, Fin 2, Fin 3), frame_id = []\<rparr>
        (Fin 0, Fin 0, Fin 0) (Fin 0, Fin 0, Fin 0, Fin 1)) = (Fin 1, Fin 2, Fin 3)
   \<and> fle (Fin 0) (Fin 1)
   \<and> fst (process_detections ex_node ex_tf_id ex_image ex_info
         [ex_detection 2 2 [], ex_detection 2 2 [ex_kp 5 4 2 (9 / 10)]])
       = Inr [(ex_detection 2 2 [])
                \<lparr>bbox3d := \<lparr>center = (Fin (1 / 125), Fin (1 / 125), Fin 2),
                             size3 = (Fin (1 / 125), Fin (1 / 125), Fin 0),
                             frame_id = ''base_link''\<rparr>\<rparr>]
   \<and> fle (Fin 0) (Fin (1 / 125))"
proof -
  let ?b = "\<lparr>center = (Fin (1 / 125), Fin (1 / 125), Fin 2),
           size3 = (Fin (1 / 125), Fin (1 / 125), Fin 0), frame_id = []\<rparr>"
  let ?bx = "\<lparr>center = (Fin 1, Fin 2, Fin 3), size3 = (Fin 1, Fin 2, Fin 3), frame_id = []\<rparr>"
  let ?d = "(ex_detection 2 2 [])
                \<lparr>bbox3d := \<lparr>center = (Fin (1 / 125), Fin (1 / 125), Fin 2),
                             size3 = (Fin (1 / 125), Fin (1 / 125), Fin 0),
                             frame_id = ''base_link''\<rparr>\<rparr>"
  let ?dets = "[ex_detection 2 2 [], ex_detection 2 2 [ex_kp 5 4 2 (9 / 10)]]"
  have e: "convert_bb_to_3d ex_node ex_image ex_info (ex_detection 2 2 []) = Some ?b"
    by code_simp
  have s: "size3 (transform_3d_box ?bx (Fin 0, Fin 0, Fin 0) (Fin 0, Fin 0, Fin 0, Fin 1))
       = (Fin 1, Fin 2, Fin 3)"
    by code_simp
  have p: "fst (process_detections ex_node ex_tf_id ex_image ex_info ?dets) = Inr [?d]"
    by code_simp
  have sd: "fst (size3 (bbox3d ?d)) = Fin (1 / 125)" by simp
  note t = output_sizes_nonneg_or_nan [of ex_node ex_image ex_info "ex_detection 2 2 []" ?b
      ?bx "(Fin 0, Fin 0, Fin 0)" "(Fin 0, Fin 0, Fin 0, Fin 1)" ex_tf_id ?dets]
  from t e have r1: "fle (Fin 0) (snd (snd (size3 ?b)))" by blast
  from t have "\<forall>c \<in> {fst (size3 (transform_3d_box ?bx (Fin 0, Fin 0, Fin 0) (Fin 0, Fin 0, Fin 0, Fin 1))),
              fst (snd (size3 (transform_3d_box ?bx (Fin 0, Fin 0, Fin 0) (Fin 0, Fin 0, Fin 0, Fin 1)))),
              snd (snd (size3 (transform_3d_box ?bx (Fin 0, Fin 0, Fin 0) (Fin 0, Fin 0, Fin 0, Fin 1))))}.
             fle (Fin 0) c \<or> isnan c" by blast
  then have r2: "fle (Fin 0) (Fin 1)" unfolding s by simp
  from t p have "\<forall>d \<in> set [?d].
            \<forall>c \<in> {fst (size3 (bbox3d d)), fst (snd (size3 (bbox3d d))),
                   snd (snd (size3 (bbox3d d)))}. fle (Fin 0) c \<or> isnan c" by blast
  then have "fle (Fin 0) (fst (size3 (bbox3d ?d))) \<or> isnan (fst (size3 (bbox3d ?d)))"
    by simp
  then have r3: "fle (Fin 0) (Fin (1 / 125))" unfolding sd by simp
  from e r1 s r2 p r3 show ?thesis by blast
qed

text \<open>
  Claim C9 as stated fails: with a zero intrinsic matrix \<open>convert_bb_to_3d\<close> divides by
  \<open>fx = 0\<close> and returns an infinite \<open>size.x\<close>; the identity rotation multiplies it by zero,
  and the size of the transformed box is NaN, which is not \<open>>= 0\<close>.
\<close>

theorem transformed_size_counterexample:
  "convert_bb_to_3d ex_node ex_image ex_info0 (ex_detection 2 2 []) =
     Some \<lparr>center = (PInf, PInf, Fin 2), size3 = (PInf, PInf, Fin 0), frame_id = []\<rparr>
   \<and> size3 (transform_3d_box
               \<lparr>center = (PInf, PInf, Fin 2), size3 = (PInf, PInf, Fin 0), frame_id = []\<rparr>
               (Fin 0, Fin 0, Fin 0) (Fin 1, Fin 0, Fin 0, Fin 0)) = (NaN, NaN, NaN)
   \<and> \<not> fle (Fin 0) NaN"
proof (intro conjI)
  show "convert_bb_to_3d ex_node ex_image ex_info0 (ex_detection 2 2 []) =
     Some \<lparr>center = (PInf, PInf, Fin 2), size3 = (PInf, PInf, Fin 0), frame_id = []\<rparr>"
    by code_simp
  show "size3 (transform_3d_box
               \<lparr>center = (PInf, PInf, Fin 2), size3 = (PInf, PInf, Fin 0), frame_id = []\<rparr>
               (Fin 0, Fin 0, Fin 0) (Fin 1, Fin 0, Fin 0, Fin 0)) = (NaN, NaN, NaN)"
    by code_simp
  show "\<not> fle (Fin 0) NaN" by simp
qed

section \<open>Coordinates that are not finite\<close>

lemma py_int_float_Fin: "py_int_float (Fin r) = Inr (py_int r)"
  by (simp add: py_int_float_def)

lemma convert_bb_to_3d_tail:
  "convert_bb_to_3d self img info d =
     (if \<not> np_any (box_roi self img d) then None
      else box_from_anchor self img info (box_roi self img d) (anchor d)
             (py_int (p_x (size2 (bbox d))), py_int (p_y (size2 (bbox d)))))"
  unfolding convert_bb_to_3d_def box_from_anchor_def Let_def box_roi_def [symmetric]
    anchor_def [symmetric] case_prod_beta
  by (simp only: fst_conv snd_conv)

lemma fkp_step_float:
  "fkp_step (float_state s) (float_kp p) = float_state (kp_step s p)"
  by (simp add: fkp_step_def kp_step_def float_state_def float_kp_def)

lemma foldl_fkp_step_float:
  "foldl fkp_step (float_state s) (map float_kp kps) = float_state (foldl kp_step s kps)"
  by (induction kps arbitrary: s) (simp_all add: fkp_step_float)

lemma fget_keypoints_float:
  "fget_keypoints (map float_kp kps) = float_state (get_keypoints kps)"
proof -
  have init: "fkp_init = float_state kp_init"
    by (simp add: fkp_init_def kp_init_def float_state_def float_kp_def
        KeyPoint2D_float_default_def KeyPoint2D_default_def Point2D_default_def)
  show ?thesis
    unfolding fget_keypoints_def get_keypoints_def init by (rule foldl_fkp_step_float)
qed

lemma fbetter_float: "fbetter (float_kp a) (float_kp b) = float_kp (better a b)"
  by (simp add: fbetter_def better_def float_kp_def)

lemma float_kp_x: "fp_x (fkp_point (float_kp p)) = Fin (p_x (kp_point p))"
  by (simp add: float_kp_def)

lemma float_kp_y: "fp_y (fkp_point (float_kp p)) = Fin (p_y (kp_point p))"
  by (simp add: float_kp_def)

lemma bound_below_overflow: "2 * coordinate_bound < float64_overflow"
  by (simp add: coordinate_bound_def float64_overflow_def)

lemma fadd64_bounded:
  assumes "\<bar>a\<bar> \<le> coordinate_bound" and "\<bar>b\<bar> \<le> coordinate_bound"
  shows "fadd64 (Fin a) (Fin b) = Fin (a + b)"
proof -
  from assms have "\<bar>a + b\<bar> \<le> 2 * coordinate_bound" by linarith
  with bound_below_overflow
  have "a + b < float64_overflow" and "- float64_overflow < a + b" by linarith+
  then show ?thesis by (simp add: fadd64_def)
qed

lemma kp_bounded_default: "kp_bounded KeyPoint2D_default"
  by (simp add: kp_bounded_def KeyPoint2D_default_def Point2D_default_def coordinate_bound_def)

lemma kp_step_bounded:
  assumes "kp_bounded (kp5 s) \<and> kp_bounded (kp6 s) \<and> kp_bounded (kp11 s) \<and> kp_bounded (kp12 s)"
    and "kp_bounded p"
  shows "kp_bounded (kp5 (kp_step s p)) \<and> kp_bounded (kp6 (kp_step s p))
       \<and> kp_bounded (kp11 (kp_step s p)) \<and> kp_bounded (kp12 (kp_step s p))"
  using assms by (simp add: kp_step_def)

lemma foldl_kp_step_bounded:
  "kp_bounded (kp5 s) \<and> kp_bounded (kp6 s) \<and> kp_bounded (kp11 s) \<and> kp_bounded (kp12 s)
   \<Longrightarrow> list_all kp_bounded kps
   \<Longrightarrow> kp_bounded (kp5 (foldl kp_step s kps)) \<and> kp_bounded (kp6 (foldl kp_step s kps))
       \<and> kp_bounded (kp11 (foldl kp_step s kps)) \<and> kp_bounded (kp12 (foldl kp_step s kps))"
proof (induction kps arbitrary: s)
  case Nil
  then show ?case by simp
next
  case (Cons p kps)
  from Cons.prems have "kp_bounded p" and rest: "list_all kp_bounded kps" by simp_all
  from kp_step_bounded [OF Cons.prems(1) this(1)] rest
  show ?case by (simp add: Cons.IH)
qed

lemma get_keypoints_bounded:
  assumes "list_all kp_bounded kps"
  shows "kp_bounded (kp5 (get_keypoints kps)) \<and> kp_bounded (kp6 (get_keypoints kps))
       \<and> kp_bounded (kp11 (get_keypoints kps)) \<and> kp_bounded (kp12 (get_keypoints kps))"
  unfolding get_keypoints_def
  by (rule foldl_kp_step_bounded [OF _ assms]) (simp add: kp_init_def kp_bounded_default)

lemma better_bounded: "kp_bounded a \<Longrightarrow> kp_bounded b \<Longrightarrow> kp_bounded (better a b)"
  by (simp add: better_def)

lemma fmidpoint2_float:
  assumes "kp_bounded a" and "kp_bounded b"
  shows "fmidpoint2 (float_kp a) (float_kp b)
       = (Fin (fst (midpoint2 a b)), Fin (snd (midpoint2 a b)))"
  using assms
  by (simp add: fmidpoint2_def midpoint2_def float_kp_x float_kp_y fadd64_bounded kp_bounded_def)

lemma anchor_float_finite:
  assumes bd: "list_all kp_bounded kps"
  shows "\<exists>a b. anchor_float c (map float_kp kps) = (Fin a, Fin b)
         \<and> resolve_anchor c kps = (py_int a, py_int b)"
proof -
  let ?s = "get_keypoints kps"
  from get_keypoints_bounded [OF bd]
  have up: "kp_bounded (better (kp5 ?s) (kp6 ?s))"
    and down: "kp_bounded (better (kp11 ?s) (kp12 ?s))"
    by (simp_all add: better_bounded)
  note mid = fmidpoint2_float [OF up down]
  consider (both) "up_detected ?s" "down_detected ?s"
    | (up) "up_detected ?s" "\<not> down_detected ?s"
    | (down) "\<not> up_detected ?s" "down_detected ?s"
    | (none) "\<not> up_detected ?s" "\<not> down_detected ?s"
    by blast
  then show ?thesis
  proof cases
    case both
    then show ?thesis
      by (simp add: anchor_float_def resolve_anchor_def fget_keypoints_float float_state_def
          fbetter_float mid Let_def)
  next
    case up
    then show ?thesis
      by (simp add: anchor_float_def resolve_anchor_def fget_keypoints_float float_state_def
          fbetter_float Let_def float_kp_x float_kp_y)
  next
    case down
    then show ?thesis
      by (simp add: anchor_float_def resolve_anchor_def fget_keypoints_float float_state_def
          fbetter_float Let_def float_kp_x float_kp_y)
  next
    case none
    then show ?thesis
      by (simp add: anchor_float_def resolve_anchor_def fget_keypoints_float float_state_def
          Let_def)
  qed
qed

lemma convert_bb_to_3d_float_finite:
  assumes "keypoints_bounded d"
  shows "convert_bb_to_3d_float self img info (float_detection d)
       = Inr (convert_bb_to_3d self img info d)"
proof -
  let ?c = "(py_int (p_x (center2 (bbox d))), py_int (p_y (center2 (bbox d))))"
  from assms have bd: "list_all kp_bounded (keypoints d)"
    by (simp add: keypoints_bounded_def)
  obtain a b where ab: "anchor_float ?c (map float_kp (keypoints d)) = (Fin a, Fin b)"
    and r: "resolve_anchor ?c (keypoints d) = (py_int a, py_int b)"
    using anchor_float_finite [OF bd, of ?c] by blast
  from r have an: "anchor d = (py_int a, py_int b)"
    by (simp add: anchor_def)
  show ?thesis
    unfolding convert_bb_to_3d_tail
    by (simp add: convert_bb_to_3d_float_def float_detection_def py_int_float_Fin ab an
        box_roi_def Let_def)
qed

text \<open>
  Claim C4, as amended. For a detection whose box and keypoint coordinates are finite, the
  keypoint coordinates of magnitude at most \<open>2^1022\<close>, \<open>convert_bb_to_3d\<close> raises no error:
  it returns, and it returns no box exactly when the cropped region has no non-zero value, or
  the anchor lies outside the image, or the depth at the anchor is NaN, zero or infinite, or
  the region has no strictly positive finite sample, or no finite sample lies within the
  threshold of their mean. In particular an anchor at \<open>x = width\<close>, at \<open>x = -1\<close> or at
  \<open>y = height\<close> gives no box.
\<close>

theorem no_box_iff_finite:
  assumes "keypoints_bounded d"
  shows "convert_bb_to_3d_float self img info (float_detection d)
     = Inr (convert_bb_to_3d self img info d)
   \<and> (convert_bb_to_3d_float self img info (float_detection d) = Inr None \<longleftrightarrow>
      \<not> np_any (box_roi self img d)
      \<or> \<not> anchor_in_bounds img d
      \<or> isnan (anchor_depth self img d) \<or> anchor_depth self img d = Fin 0
      \<or> isinf (anchor_depth self img d)
      \<or> \<not> (\<exists>a. Fin a \<in> set (concat (box_roi self img d)) \<and> 0 < a)
      \<or> {a. Fin a \<in> set (concat (box_roi self img d)) \<and>
             \<bar>a - mean (filter (\<lambda>a. 0 < a) (fin_vals (concat (box_roi self img d))))\<bar>
               \<le> maximum_detection_threshold self} = {})
   \<and> (fst (anchor d) = int (cols img) \<longrightarrow>
        convert_bb_to_3d_float self img info (float_detection d) = Inr None)
   \<and> (fst (anchor d) = - 1 \<longrightarrow>
        convert_bb_to_3d_float self img info (float_detection d) = Inr None)
   \<and> (snd (anchor d) = int (rows img) \<longrightarrow>
        convert_bb_to_3d_float self img info (float_detection d) = Inr None)"
  unfolding convert_bb_to_3d_float_finite [OF assms] sum.inject
  using no_box_iff [of self img info d] by simp

text \<open>
  Three detections whose keypoint with id 5 puts the anchor at the width, at -1 and at the
  height of the 4 x 4 frame, and one detection that gets its box at the midpoint of its
  keypoints 5 and 11.
\<close>

theorem no_box_iff_finite_witness:
  "keypoints_bounded (ex_detection 2 2 [ex_kp 5 4 2 (9 / 10)])
   \<and> fst (anchor (ex_detection 2 2 [ex_kp 5 4 2 (9 / 10)])) = int (cols ex_image)
   \<and> convert_bb_to_3d_float ex_node ex_image ex_info
         (float_detection (ex_detection 2 2 [ex_kp 5 4 2 (9 / 10)])) = Inr None
   \<and> keypoints_bounded (ex_detection 2 2 [ex_kp 5 (- 1) 2 (9 / 10)])
   \<and> fst (anchor (ex_detection 2 2 [ex_kp 5 (- 1) 2 (9 / 10)])) = - 1
   \<and> convert_bb_to_3d_float ex_node ex_image ex_info
         (float_detection (ex_detection 2 2 [ex_kp 5 (- 1) 2 (9 / 10)])) = Inr None
   \<and> keypoints_bounded (ex_detection 2 2 [ex_kp 5 2 4 (9 / 10)])
   \<and> snd (anchor (ex_detection 2 2 [ex_kp 5 2 4 (9 / 10)])) = int (rows ex_image)
   \<and> convert_bb_to_3d_float ex_node ex_image ex_info
         (float_detection (ex_detection 2 2 [ex_kp 5 2 4 (9 / 10)])) = Inr None
   \<and> keypoints_bounded (ex_detection 2 2 [ex_kp 5 1 1 (9 / 10), ex_kp 11 2 3 (8 / 10)])
   \<and> convert_bb_to_3d_float ex_node ex_image ex_info
         (float_detection (ex_detection 2 2 [ex_kp 5 1 1 (9 / 10), ex_kp 11 2 3 (8 / 10)]))
       = Inr (Some \<lparr>center = (Fin (1 / 250), Fin (1 / 125), Fin 2),
                    size3 = (Fin (1 / 125), Fin (1 / 125), Fin 0), frame_id = []\<rparr>)"
proof -
  have b1: "keypoints_bounded (ex_detection 2 2 [ex_kp 5 4 2 (9 / 10)])"
    by (simp add: keypoints_bounded_def kp_bounded_def coordinate_bound_def
        ex_detection_def ex_kp_def)
  have b2: "keypoints_bounded (ex_detection 2 2 [ex_kp 5 (- 1) 2 (9 / 10)])"
    by (simp add: keypoints_bounded_def kp_bounded_def coordinate_bound_def
        ex_detection_def ex_kp_def)
  have b3: "keypoints_bounded (ex_detection 2 2 [ex_kp 5 2 4 (9 / 10)])"
    by (simp add: keypoints_bounded_def kp_bounded_def coordinate_bound_def
        ex_detection_def ex_kp_def)
  have b4: "keypoints_bounded (ex_detection 2 2 [ex_kp 5 1 1 (9 / 10), ex_kp 11 2 3 (8 / 10)])"
    by (simp add: keypoints_bounded_def kp_bounded_def coordinate_bound_def
        ex_detection_def ex_kp_def)
  have a1: "fst (anchor (ex_detection 2 2 [ex_kp 5 4 2 (9 / 10)])) = int (cols ex_image)"
    by code_simp
  have a2: "fst (anchor (ex_detection 2 2 [ex_kp 5 (- 1) 2 (9 / 10)])) = - 1"
    by code_simp
  have a3: "snd (anchor (ex_detection 2 2 [ex_kp 5 2 4 (9 / 10)])) = int (rows ex_image)"
    by code_simp
  have e: "convert_bb_to_3d ex_node ex_image ex_info
             (ex_detection 2 2 [ex_kp 5 1 1 (9 / 10), ex_kp 11 2 3 (8 / 10)])
       = Some \<lparr>center = (Fin (1 / 250), Fin (1 / 125), Fin 2),
               size3 = (Fin (1 / 125), Fin (1 / 125), Fin 0), frame_id = []\<rparr>"
    by code_simp
  have r: "convert_bb_to_3d_float ex_node ex_image ex_info
         (float_detection (ex_detection 2 2 [ex_kp 5 1 1 (9 / 10), ex_kp 11 2 3 (8 / 10)]))
       = Inr (Some \<lparr>center = (Fin (1 / 250), Fin (1 / 125), Fin 2),
                    size3 = (Fin (1 / 125), Fin (1 / 125), Fin 0), frame_id = []\<rparr>)"
    using no_box_iff_finite [OF b4, of ex_node ex_image ex_info, THEN conjunct1]
    unfolding e .
  from a1 a2 a3 r b1 b2 b3 b4
    no_box_iff_finite [OF b1, of ex_node ex_image ex_info]
    no_box_iff_finite [OF b2, of ex_node ex_image ex_info]
    no_box_iff_finite [OF b3, of ex_node ex_image ex_info]
  show ?thesis by blast
qed

lemma ex_roi_any: "np_any (crop_roi ex_node ex_image 2 2 2 2)"
  by code_simp

lemma ex_anchor_overflow:
  "anchor_float (2, 2) [ex_fkp 5 (Fin (2 ^ 1023)) (Fin 2) (9 / 10),
                        ex_fkp 11 (Fin (2 ^ 1023)) (Fin 2) (9 / 10)] = (PInf, Fin 2)"
  by (simp add: anchor_float_def fget_keypoints_def fkp_step_def fkp_init_def fbetter_def
      fmidpoint2_def fadd64_def float64_overflow_def ex_fkp_def KeyPoint2D_float_default_def
      Let_def)

lemma raises_of_anchor:
  assumes "np_any (crop_roi self img 2 2 2 2)"
    and "anchor_float (2, 2) kps = (PInf, y)"
  shows "convert_bb_to_3d_float self img info (ex_detection_float (Fin 2) (Fin 2) kps)
       = Inl OverflowError"
  using assms
  by (simp add: convert_bb_to_3d_float_def ex_detection_float_def py_int_float_def py_int_def)

text \<open>
  Claim C4 as stated fails: the coordinates are float fields, and \<open>int(...)\<close> raises on a
  value that is not finite. A keypoint with id 5 at \<open>x = inf\<close> makes the conversion of the
  anchor raise \<open>OverflowError\<close>, one at \<open>x = NaN\<close> and a box centre at \<open>x = NaN\<close> raise
  \<open>ValueError\<close>, and so do two finite keypoints with ids 5 and 11 at \<open>x = 2^1023\<close>, whose
  sum overflows, where the claim has the function return without raising.
\<close>

theorem convert_bb_to_3d_raises:
  "convert_bb_to_3d_float ex_node ex_image ex_info
       (ex_detection_float (Fin 2) (Fin 2) [ex_fkp 5 PInf (Fin 2) (9 / 10)]) = Inl OverflowError
   \<and> convert_bb_to_3d_float ex_node ex_image ex_info
       (ex_detection_float (Fin 2) (Fin 2) [ex_fkp 5 NaN (Fin 2) (9 / 10)]) = Inl ValueError
   \<and> convert_bb_to_3d_float ex_node ex_image ex_info
       (ex_detection_float NaN (Fin 2) []) = Inl ValueError
   \<and> convert_bb_to_3d_float ex_node ex_image ex_info
       (ex_detection_float (Fin 2) (Fin 2)
          [ex_fkp 5 (Fin (2 ^ 1023)) (Fin 2) (9 / 10),
           ex_fkp 11 (Fin (2 ^ 1023)) (Fin 2) (9 / 10)]) = Inl OverflowError"
proof (intro conjI)
  show "convert_bb_to_3d_float ex_node ex_image ex_info
       (ex_detection_float (Fin 2) (Fin 2) [ex_fkp 5 PInf (Fin 2) (9 / 10)]) = Inl OverflowError"
    by code_simp
  show "convert_bb_to_3d_float ex_node ex_image ex_info
       (ex_detection_float (Fin 2) (Fin 2) [ex_fkp 5 NaN (Fin 2) (9 / 10)]) = Inl ValueError"
    by code_simp
  show "convert_bb_to_3d_float ex_node ex_image ex_info
       (ex_detection_float NaN (Fin 2) []) = Inl ValueError"
    by code_simp
  show "convert_bb_to_3d_float ex_node ex_image ex_info
       (ex_detection_float (Fin 2) (Fin 2)
          [ex_fkp 5 (Fin (2 ^ 1023)) (Fin 2) (9 / 10),
           ex_fkp 11 (Fin (2 ^ 1023)) (Fin 2) (9 / 10)]) = Inl OverflowError"
    by (rule raises_of_anchor [OF ex_roi_any ex_anchor_overflow])
qed
end
